theory Spec2Isabelle
  imports Main "HOL-Library.Word"
begin

unbundle bit_operations_syntax

section \<open>The dissector of extractaudio/eaud_pcap.c\<close>

text \<open>
  \<^verbatim>\<open>eaud_pcap_dissect(bp, blen, network, dp)\<close> looks at one pcap record that starts at
  \<^verbatim>\<open>bp\<close>, strips the link framing chosen by \<^verbatim>\<open>network\<close>, and fills \<^verbatim>\<open>*dp\<close> with the
  place and length of the UDP payload, the addresses and the ports.

  The buffer is a C pointer with a separate length: the function is handed the memory
  that starts at \<^verbatim>\<open>bp\<close> and the number \<^verbatim>\<open>blen\<close>, and nothing in it ties a read to
  \<^verbatim>\<open>blen\<close> except the comparisons it writes out. The model keeps the two apart in the
  same way: \<open>memory\<close> gives the byte at every offset from \<^verbatim>\<open>bp\<close>, and \<open>blen\<close> is a
  number of its own. A pointer into the buffer is its offset from \<^verbatim>\<open>bp\<close>; the null
  pointer that \<^verbatim>\<open>memset\<close> leaves behind is \<open>None\<close>.
\<close>

type_synonym byte = "8 word"
type_synonym memory = "nat \<Rightarrow> byte"

subsection \<open>What the headers outside the source file declare\<close>

text \<open>
  The file includes \<^verbatim>\<open>rtpp_record_private.h\<close> and \<^verbatim>\<open>eaud_pcap.h\<close>, which declare the
  record header \<^verbatim>\<open>pcaprec_hdr_t\<close>, the link headers, the link-type tags and
  \<^verbatim>\<open>ETHERTYPE_INET\<close>; \<^verbatim>\<open>AF_INET\<close> and the byte order come from the platform. None of
  them is fixed by the source file, so the model takes them as a parameter: every
  theorem below holds for each value of it.
\<close>

record layout =
  big_endian :: bool                \<comment> \<open>byte order of the host\<close>
  DLT_NULL :: int
  DLT_LINUX_SLL :: int
  AF_INET :: "32 word"
  ETHERTYPE_INET :: "16 word"
  sizeof_pcaprec_hdr :: nat         \<comment> \<open>\<^verbatim>\<open>sizeof(pcaprec_hdr_t)\<close>\<close>
  offsetof_incl_len :: nat          \<comment> \<open>\<^verbatim>\<open>offsetof(pcaprec_hdr_t, incl_len)\<close>\<close>
  sizeof_linux_sll_hdr :: nat       \<comment> \<open>\<^verbatim>\<open>sizeof(struct linux_sll_hdr)\<close>\<close>
  offsetof_protocol :: nat          \<comment> \<open>\<^verbatim>\<open>offsetof(struct linux_sll_hdr, protocol)\<close>\<close>
  sizeof_layer2_hdr :: nat          \<comment> \<open>size of the Ethernet header \<^verbatim>\<open>en10t.ether\<close>\<close>
  offsetof_type :: nat              \<comment> \<open>offset of \<^verbatim>\<open>type\<close> in the Ethernet header\<close>

text \<open>
  \<^verbatim>\<open>struct ip\<close> and \<^verbatim>\<open>struct udphdr\<close> of \<^verbatim>\<open>netinet/ip.h\<close> and \<^verbatim>\<open>netinet/udp.h\<close> are the
  IPv4 and UDP headers as they are on the wire: 20 and 8 bytes, \<^verbatim>\<open>ip_hl\<close> the low four
  bits of the first byte, \<^verbatim>\<open>ip_src\<close> and \<^verbatim>\<open>ip_dst\<close> at bytes 12 and 16, the two ports
  at bytes 0 and 2 of the UDP header.
\<close>

definition sizeof_ip :: nat where "sizeof_ip = 20"
definition sizeof_udphdr :: nat where "sizeof_udphdr = 8"
definition offsetof_ip_src :: nat where "offsetof_ip_src = 12"
definition offsetof_ip_dst :: nat where "offsetof_ip_dst = 16"
definition offsetof_uh_sport :: nat where "offsetof_uh_sport = 0"
definition offsetof_uh_dport :: nat where "offsetof_uh_dport = 2"

definition ip_hl :: "memory \<Rightarrow> nat \<Rightarrow> nat" where
  "ip_hl bp iphdr = unat (bp iphdr AND 0x0F)"

text \<open>
  Modelled from the spec: the declarations of \<^verbatim>\<open>struct udpip\<close>,
  \<^verbatim>\<open>struct pkt_hdr_pcap_null\<close> and \<^verbatim>\<open>struct pkt_hdr_pcap_en10t\<close> are missing. The spec
  has the network pair as an IP header immediately followed by a UDP header, a fixed-size
  aggregate directly adjoining the link header, the record header first, and the loopback
  link header a 4-byte address family (the function copies it into a \<^verbatim>\<open>uint32_t\<close>). So
  each struct is the sum of its parts, in that order, with no padding.
\<close>

definition sizeof_udpip :: nat where
  "sizeof_udpip = sizeof_ip + sizeof_udphdr"

definition offsetof_udpip_udphdr :: nat where
  "offsetof_udpip_udphdr = sizeof_ip"

definition sizeof_family :: nat where "sizeof_family = 4"

definition sizeof_pkt_hdr_pcap_null :: "layout \<Rightarrow> nat" where
  "sizeof_pkt_hdr_pcap_null L = sizeof_pcaprec_hdr L + sizeof_family + sizeof_udpip"

definition offsetof_null_family :: "layout \<Rightarrow> nat" where
  "offsetof_null_family L = sizeof_pcaprec_hdr L"

definition offsetof_null_udpip :: "layout \<Rightarrow> nat" where
  "offsetof_null_udpip L = sizeof_pcaprec_hdr L + sizeof_family"

definition sizeof_pkt_hdr_pcap_en10t :: "layout \<Rightarrow> nat" where
  "sizeof_pkt_hdr_pcap_en10t L = sizeof_pcaprec_hdr L + sizeof_layer2_hdr L + sizeof_udpip"

definition offsetof_en10t_ether_type :: "layout \<Rightarrow> nat" where
  "offsetof_en10t_ether_type L = sizeof_pcaprec_hdr L + offsetof_type L"

definition offsetof_en10t_udpip :: "layout \<Rightarrow> nat" where
  "offsetof_en10t_udpip L = sizeof_pcaprec_hdr L + sizeof_layer2_hdr L"

subsection \<open>Byte order\<close>

text \<open>
  \<open>be16\<close> and \<open>be32\<close> put bytes together most significant first. \<^verbatim>\<open>memcpy\<close> into a
  \<^verbatim>\<open>uint16_t\<close> or \<^verbatim>\<open>uint32_t\<close> (and the read of a \<^verbatim>\<open>uint16_t\<close> struct field) takes the
  bytes in the order of the host; \<^verbatim>\<open>ntohs\<close> swaps the two bytes on a little-endian host
  and does nothing on a big-endian one.
\<close>

definition be16 :: "byte \<Rightarrow> byte \<Rightarrow> 16 word" where
  "be16 b0 b1 = push_bit 8 (ucast b0) OR ucast b1"

definition be32 :: "byte \<Rightarrow> byte \<Rightarrow> byte \<Rightarrow> byte \<Rightarrow> 32 word" where
  "be32 b0 b1 b2 b3 =
     push_bit 24 (ucast b0) OR push_bit 16 (ucast b1) OR push_bit 8 (ucast b2) OR ucast b3"

definition load16 :: "layout \<Rightarrow> memory \<Rightarrow> nat \<Rightarrow> 16 word" where
  "load16 L bp a =
     (if big_endian L then be16 (bp a) (bp (a + 1)) else be16 (bp (a + 1)) (bp a))"

definition load32 :: "layout \<Rightarrow> memory \<Rightarrow> nat \<Rightarrow> 32 word" where
  "load32 L bp a =
     (if big_endian L then be32 (bp a) (bp (a + 1)) (bp (a + 2)) (bp (a + 3))
      else be32 (bp (a + 3)) (bp (a + 2)) (bp (a + 1)) (bp a))"

definition ntohs :: "layout \<Rightarrow> 16 word \<Rightarrow> 16 word" where
  "ntohs L x = (if big_endian L then x else be16 (ucast x) (ucast (drop_bit 8 x)))"

definition ntohsp :: "layout \<Rightarrow> memory \<Rightarrow> nat \<Rightarrow> 16 word" where
  "ntohsp L bp np = ntohs L (load16 L bp np)"

subsection \<open>The result\<close>

text \<open>
  Modelled from the spec: the declaration of \<^verbatim>\<open>struct pcap_dissect\<close> and of the three
  return codes (\<^verbatim>\<open>eaud_pcap.h\<close>) is missing. The fields are those the function assigns,
  which are the ones the spec lists for the dissection result: the copied record header,
  the header length, the reference to the network pair, the references to the source
  and destination addresses, the two ports in host byte order, the payload length and
  the payload reference. \<^verbatim>\<open>l5_len\<close> is compared with 0 and with an \<^verbatim>\<open>(int)\<close> cast in the
  source, so it is a C \<^verbatim>\<open>int\<close>: 32 bits, read as signed with \<open>sint\<close>. Nothing in the source
  shows the type of \<^verbatim>\<open>pcap_hdr_len\<close>; the spec has the header length as a count of bytes
  that is exactly the record header size plus \<^verbatim>\<open>incl_len\<close> on the Unknown outcome, so the
  field is a natural number that holds every such count. The copied record header is its
  bytes. The outcomes are the three codes, Ok, Truncated and Unknown.
\<close>

record pcap_dissect =
  pcaprec_hdr :: "byte list"
  pcap_hdr_len :: nat
  udpip :: "nat option"
  src :: "nat option"
  dst :: "nat option"
  sport :: "16 word"
  dport :: "16 word"
  l5_len :: "32 word"
  l5_data :: "nat option"

datatype outcome = PCP_DSCT_OK | PCP_DSCT_TRNK | PCP_DSCT_UNKN

text \<open>\<^verbatim>\<open>memset(dp, '\0', sizeof(*dp))\<close>\<close>

definition zero_dissect :: "layout \<Rightarrow> pcap_dissect" where
  "zero_dissect L =
     \<lparr>pcaprec_hdr = replicate (sizeof_pcaprec_hdr L) 0, pcap_hdr_len = 0, udpip = None,
      src = None, dst = None, sport = 0, dport = 0, l5_len = 0, l5_data = None\<rparr>"

text \<open>\<^verbatim>\<open>memcpy(&dp->pcaprec_hdr, bp, sizeof(pcaprec_hdr_t))\<close>\<close>

definition copy_pcaprec_hdr :: "layout \<Rightarrow> memory \<Rightarrow> byte list" where
  "copy_pcaprec_hdr L bp = map bp [0 ..< sizeof_pcaprec_hdr L]"

subsection \<open>The function\<close>

text \<open>
  Lines 115 to 151: what follows the three-way choice of the framing, for the paths that
  have not returned from it. \<open>u\<close> is the value of \<^verbatim>\<open>dp->udpip\<close>, which each of the three
  branches has just set. The arithmetic of line 115 is done in \<^verbatim>\<open>size_t\<close> and stored in
  an \<^verbatim>\<open>int\<close>, which keeps its low 32 bits: word arithmetic. Every \<^verbatim>\<open>return\<close> of the source
  is a pair of the code returned and \<^verbatim>\<open>*dp\<close> as it stands then.
\<close>

definition dissect_l5 ::
  "layout \<Rightarrow> memory \<Rightarrow> int \<Rightarrow> 32 word \<Rightarrow> nat \<Rightarrow> pcap_dissect \<Rightarrow> outcome \<times> pcap_dissect" where
  "dissect_l5 L bp network incl_len u dp0 =
     (let dp = dp0\<lparr>l5_len :=
                incl_len + of_nat (sizeof_pcaprec_hdr L) - of_nat (pcap_hdr_len dp0)\<rparr> in
      if sint (l5_len dp) < 0 then (PCP_DSCT_TRNK, dp)
      else if network = DLT_LINUX_SLL L then
        (let iphdr = u;
             ip_hdr_len = ip_hl bp iphdr * 4 in
         if sint (l5_len dp) < int (ip_hdr_len + sizeof_udphdr) then (PCP_DSCT_TRNK, dp)
         else
           (let udphdr = iphdr + ip_hdr_len in
            (PCP_DSCT_OK,
             dp\<lparr>l5_data := Some (udphdr + sizeof_udphdr),
                l5_len := l5_len dp - of_nat (ip_hdr_len + sizeof_udphdr),
                src := Some (iphdr + offsetof_ip_src),
                dst := Some (iphdr + offsetof_ip_dst),
                sport := ntohs L (load16 L bp (udphdr + offsetof_uh_sport)),
                dport := ntohs L (load16 L bp (udphdr + offsetof_uh_dport))\<rparr>)))
      else
        (PCP_DSCT_OK,
         dp\<lparr>l5_data := Some (u + sizeof_udpip),
            src := Some (u + offsetof_ip_src),
            sport := ntohsp L bp (u + offsetof_udpip_udphdr + offsetof_uh_sport),
            dst := Some (u + offsetof_ip_dst),
            dport := ntohsp L bp (u + offsetof_udpip_udphdr + offsetof_uh_dport)\<rparr>))"

text \<open>
  The whole function, lines 55 to 152. \<^verbatim>\<open>sizeof(pcaprec_hdr_t) + incl_len\<close> is a sum of
  sizes, stored in \<^verbatim>\<open>pcap_hdr_len\<close>.
\<close>

definition eaud_pcap_dissect ::
  "layout \<Rightarrow> memory \<Rightarrow> nat \<Rightarrow> int \<Rightarrow> outcome \<times> pcap_dissect" where
  "eaud_pcap_dissect L bp blen network =
     (let dp = zero_dissect L in
      if network = DLT_NULL L then
        if blen < sizeof_pkt_hdr_pcap_null L then (PCP_DSCT_TRNK, dp)
        else
          (let family = load32 L bp (offsetof_null_family L);
               incl_len = load32 L bp (offsetof_incl_len L) in
           if family \<noteq> AF_INET L then
             (PCP_DSCT_UNKN, dp\<lparr>pcap_hdr_len := sizeof_pcaprec_hdr L + unat incl_len\<rparr>)
           else
             dissect_l5 L bp network incl_len (offsetof_null_udpip L)
               (dp\<lparr>pcaprec_hdr := copy_pcaprec_hdr L bp,
                   pcap_hdr_len := sizeof_pkt_hdr_pcap_null L,
                   udpip := Some (offsetof_null_udpip L)\<rparr>))
      else if network = DLT_LINUX_SLL L then
        (let linux_sll_hdr_size = sizeof_linux_sll_hdr L in
         if blen < sizeof_pcaprec_hdr L + linux_sll_hdr_size then (PCP_DSCT_TRNK, dp)
         else
           (let linux_sll_data = sizeof_pcaprec_hdr L;
                protocol = ntohs L (load16 L bp (linux_sll_data + offsetof_protocol L));
                incl_len = load32 L bp (offsetof_incl_len L) in
            if protocol \<noteq> 0x0800 then
              (PCP_DSCT_UNKN, dp\<lparr>pcap_hdr_len := sizeof_pcaprec_hdr L + unat incl_len\<rparr>)
            else
              dissect_l5 L bp network incl_len (linux_sll_data + linux_sll_hdr_size)
                (dp\<lparr>pcaprec_hdr := copy_pcaprec_hdr L bp,
                    pcap_hdr_len := sizeof_pcaprec_hdr L + linux_sll_hdr_size,
                    udpip := Some (linux_sll_data + linux_sll_hdr_size)\<rparr>)))
      else
        if blen < sizeof_pkt_hdr_pcap_en10t L then (PCP_DSCT_TRNK, dp)
        else
          (let ether_type = load16 L bp (offsetof_en10t_ether_type L);
               incl_len = load32 L bp (offsetof_incl_len L) in
           if ether_type \<noteq> ETHERTYPE_INET L then
             (PCP_DSCT_UNKN, dp\<lparr>pcap_hdr_len := sizeof_pcaprec_hdr L + unat incl_len\<rparr>)
           else
             dissect_l5 L bp network incl_len (offsetof_en10t_udpip L)
               (dp\<lparr>pcaprec_hdr := copy_pcaprec_hdr L bp,
                   pcap_hdr_len := sizeof_pkt_hdr_pcap_en10t L,
                   udpip := Some (offsetof_en10t_udpip L)\<rparr>)))"

subsection \<open>Names for the parts of the algorithm\<close>

text \<open>
  The theorems speak of the steps of the algorithm by name. Each name below is one
  expression of the function, written once for the three framings.

  The least length the first check of each framing asks for (lines 66, 83 and 102).
\<close>

definition minimum_size :: "layout \<Rightarrow> int \<Rightarrow> nat" where
  "minimum_size L network =
     (if network = DLT_NULL L then sizeof_pkt_hdr_pcap_null L
      else if network = DLT_LINUX_SLL L then sizeof_pcaprec_hdr L + sizeof_linux_sll_hdr L
      else sizeof_pkt_hdr_pcap_en10t L)"

text \<open>The declared captured length, read from the record header (lines 70, 90, 106).\<close>

definition incl_len_of :: "layout \<Rightarrow> memory \<Rightarrow> 32 word" where
  "incl_len_of L bp = load32 L bp (offsetof_incl_len L)"

text \<open>The comparison of the discriminator with the IPv4 marker (lines 71, 92, 107).\<close>

definition is_ipv4 :: "layout \<Rightarrow> memory \<Rightarrow> int \<Rightarrow> bool" where
  "is_ipv4 L bp network =
     (if network = DLT_NULL L then load32 L bp (offsetof_null_family L) = AF_INET L
      else if network = DLT_LINUX_SLL L then
        ntohs L (load16 L bp (sizeof_pcaprec_hdr L + offsetof_protocol L)) = 0x0800
      else load16 L bp (offsetof_en10t_ether_type L) = ETHERTYPE_INET L)"

text \<open>The header length of step 5, as a size (lines 76, 97, 112).\<close>

definition header_length :: "layout \<Rightarrow> int \<Rightarrow> nat" where
  "header_length L network =
     (if network = DLT_NULL L then sizeof_pkt_hdr_pcap_null L
      else if network = DLT_LINUX_SLL L then sizeof_pcaprec_hdr L + sizeof_linux_sll_hdr L
      else sizeof_pkt_hdr_pcap_en10t L)"

text \<open>Where the network pair starts: the pointer stored in \<^verbatim>\<open>dp->udpip\<close> (lines 77, 98, 113).\<close>

definition network_pair :: "layout \<Rightarrow> int \<Rightarrow> nat" where
  "network_pair L network =
     (if network = DLT_NULL L then offsetof_null_udpip L
      else if network = DLT_LINUX_SLL L then sizeof_pcaprec_hdr L + sizeof_linux_sll_hdr L
      else offsetof_en10t_udpip L)"

text \<open>The payload length of step 5, the \<^verbatim>\<open>int\<close> that line 115 stores.\<close>

definition step5_len :: "layout \<Rightarrow> memory \<Rightarrow> int \<Rightarrow> 32 word" where
  "step5_len L bp network =
     incl_len_of L bp + of_nat (sizeof_pcaprec_hdr L) - of_nat (header_length L network)"

text \<open>The result as it stands when line 115 has run.\<close>

definition after_step5 :: "layout \<Rightarrow> memory \<Rightarrow> int \<Rightarrow> pcap_dissect" where
  "after_step5 L bp network =
     (zero_dissect L)
       \<lparr>pcaprec_hdr := copy_pcaprec_hdr L bp,
        pcap_hdr_len := header_length L network,
        udpip := Some (network_pair L network),
        l5_len := step5_len L bp network\<rparr>"

text \<open>A 16-bit field in network byte order: most significant byte first.\<close>

definition net16 :: "memory \<Rightarrow> nat \<Rightarrow> 16 word" where
  "net16 bp a = be16 (bp a) (bp (a + 1))"

text \<open>The IPv4 address a pointer to a \<^verbatim>\<open>struct in_addr\<close> refers to, in network byte order.\<close>

definition in_addr_at :: "memory \<Rightarrow> nat \<Rightarrow> 32 word" where
  "in_addr_at bp a = be32 (bp a) (bp (a + 1)) (bp (a + 2)) (bp (a + 3))"

subsection \<open>A concrete host and concrete buffers\<close>

text \<open>
  A little-endian host with the pcap file format's layouts: a 16-byte record header with
  \<^verbatim>\<open>incl_len\<close> at byte 8, the 16-byte Linux cooked header with the protocol at byte 14,
  the 14-byte Ethernet header with the type at byte 12. \<^verbatim>\<open>ETHERTYPE_INET\<close> is the
  ethertype bytes 08 00 as such a host reads them.
\<close>

definition le_host :: layout where
  "le_host =
     \<lparr>big_endian = False, DLT_NULL = 0, DLT_LINUX_SLL = 113, AF_INET = 2,
      ETHERTYPE_INET = 0x0008, sizeof_pcaprec_hdr = 16, offsetof_incl_len = 8,
      sizeof_linux_sll_hdr = 16, offsetof_protocol = 14, sizeof_layer2_hdr = 14,
      offsetof_type = 12\<rparr>"

text \<open>
  A big-endian host with the same layouts, where \<^verbatim>\<open>ETHERTYPE_INET\<close> reads 0x0800.
\<close>

definition be_host :: layout where
  "be_host = le_host\<lparr>big_endian := True, ETHERTYPE_INET := 0x0800\<rparr>"

text \<open>The memory that holds the given bytes from \<^verbatim>\<open>bp\<close> on, and zeros after them.\<close>

definition mem_of :: "byte list \<Rightarrow> memory" where
  "mem_of bs = (\<lambda>i. if i < length bs then bs ! i else 0)"

text \<open>
  The record header of such a host with both lengths set to the 32-bit value whose bytes,
  least significant first, are \<open>b0 b1 b2 b3\<close>; an IPv4 header without options from
  10.0.0.1 to 10.0.0.2 followed by a UDP header from port 5060 to port 5062; the same
  with one 4-byte IP option; and a Linux cooked header with protocol 08 00.
\<close>

definition pcaprec_bytes :: "byte \<Rightarrow> byte \<Rightarrow> byte \<Rightarrow> byte \<Rightarrow> byte list" where
  "pcaprec_bytes b0 b1 b2 b3 = [0, 0, 0, 0, 0, 0, 0, 0, b0, b1, b2, b3, b0, b1, b2, b3]"

definition udpip_bytes :: "byte list" where
  "udpip_bytes =
     [0x45, 0, 0, 32, 0, 0, 0, 0, 64, 17, 0, 0, 10, 0, 0, 1, 10, 0, 0, 2,
      0x13, 0xC4, 0x13, 0xC6, 0, 12, 0, 0]"

definition udpip_opt_bytes :: "byte list" where
  "udpip_opt_bytes =
     [0x46, 0, 0, 36, 0, 0, 0, 0, 64, 17, 0, 0, 10, 0, 0, 1, 10, 0, 0, 2, 1, 1, 1, 0,
      0x13, 0xC4, 0x13, 0xC6, 0, 12, 0, 0]"

definition sll_bytes :: "byte list" where
  "sll_bytes = [0, 0, 0, 1, 0, 6, 2, 0, 0, 0, 0, 1, 0, 0, 0x08, 0x00]"

definition ether_bytes :: "byte list" where
  "ether_bytes = [2, 0, 0, 0, 0, 2, 2, 0, 0, 0, 0, 1, 0x08, 0x00]"

text \<open>A loopback record with a 4-byte payload, and the same with family 24 (not IPv4).\<close>

definition null_rec :: "byte list" where
  "null_rec = pcaprec_bytes 36 0 0 0 @ [2, 0, 0, 0] @ udpip_bytes @ [1, 2, 3, 4]"

definition null_other_rec :: "byte list" where
  "null_other_rec = pcaprec_bytes 36 0 0 0 @ [24, 0, 0, 0] @ udpip_bytes @ [1, 2, 3, 4]"

definition null_empty_rec :: "byte list" where
  "null_empty_rec = pcaprec_bytes 0 0 0 0 @ [2, 0, 0, 0] @ udpip_bytes"

definition null_short_rec :: "byte list" where
  "null_short_rec = pcaprec_bytes 8 0 0 0 @ [2, 0, 0, 0] @ udpip_bytes"

definition null_one_short_rec :: "byte list" where
  "null_one_short_rec = pcaprec_bytes 31 0 0 0 @ [2, 0, 0, 0] @ udpip_bytes"

definition null_net_order_rec :: "byte list" where
  "null_net_order_rec = pcaprec_bytes 36 0 0 0 @ [0, 0, 0, 2] @ udpip_bytes @ [1, 2, 3, 4]"

text \<open>
  Linux cooked records: a 4-byte payload behind a 24-byte IP header, one behind a 20-byte
  IP header, one cut short, and one with protocol 86 DD (not IPv4).
\<close>

definition sll_rec :: "byte list" where
  "sll_rec = pcaprec_bytes 52 0 0 0 @ sll_bytes @ udpip_opt_bytes @ [1, 2, 3, 4]"

definition sll_plain_rec :: "byte list" where
  "sll_plain_rec = pcaprec_bytes 48 0 0 0 @ sll_bytes @ udpip_bytes @ [1, 2, 3, 4]"

definition sll_short_rec :: "byte list" where
  "sll_short_rec = pcaprec_bytes 36 0 0 0 @ sll_bytes @ udpip_opt_bytes"

definition sll_other_rec :: "byte list" where
  "sll_other_rec =
     pcaprec_bytes 52 0 0 0 @ [0, 0, 0, 1, 0, 6, 2, 0, 0, 0, 0, 1, 0, 0, 0x86, 0xDD] @
     udpip_opt_bytes @ [1, 2, 3, 4]"

text \<open>An Ethernet record with a 4-byte payload, and one with type 86 DD (not IPv4).\<close>

definition en10t_rec :: "byte list" where
  "en10t_rec = pcaprec_bytes 46 0 0 0 @ ether_bytes @ udpip_bytes @ [1, 2, 3, 4]"

definition en10t_other_rec :: "byte list" where
  "en10t_other_rec =
     pcaprec_bytes 46 0 0 0 @ [2, 0, 0, 0, 0, 2, 2, 0, 0, 0, 0, 1, 0x86, 0xDD] @
     udpip_bytes @ [1, 2, 3, 4]"


subsection \<open>A loopback record as the spec's round trip builds it\<close>

text \<open>
  A loopback-framed IPv4/UDP record with an \<open>N\<close>-byte payload: the declared captured
  length counts the family field, the two headers and the payload; the family field
  holds \<^verbatim>\<open>AF_INET\<close> as the host stores it; the addresses and the ports, in network byte
  order, are in their places in the IP and UDP headers.
\<close>

definition loopback_udp_record ::
  "layout \<Rightarrow> memory \<Rightarrow> nat \<Rightarrow> 32 word \<Rightarrow> 32 word \<Rightarrow> 16 word \<Rightarrow> 16 word \<Rightarrow> bool" where
  "loopback_udp_record L bp N saddr daddr sp dp =
     (let family = sizeof_pcaprec_hdr L;
          iphdr = family + sizeof_family;
          udphdr = iphdr + sizeof_ip in
      unat (incl_len_of L bp) = sizeof_family + sizeof_ip + sizeof_udphdr + N \<and>
      load32 L bp family = AF_INET L \<and>
      in_addr_at bp (iphdr + offsetof_ip_src) = saddr \<and>
      in_addr_at bp (iphdr + offsetof_ip_dst) = daddr \<and>
      net16 bp (udphdr + offsetof_uh_sport) = sp \<and>
      net16 bp (udphdr + offsetof_uh_dport) = dp)"

subsection \<open>Building a loopback record\<close>

text \<open>
  The construction of the round trip. \<open>bytes32\<close> and \<open>bytes16\<close> are a value in
  network byte order, \<open>store32\<close> is a 32-bit value as the host stores it. The record
  header is zero except for the declared captured length; the IP header has no options
  and carries its total length and the two addresses; the UDP header carries the two
  ports and its length; the checksums are left zero, and the payload follows.
\<close>

definition bytes32 :: "32 word \<Rightarrow> byte list" where
  "bytes32 v = [ucast (drop_bit 24 v), ucast (drop_bit 16 v), ucast (drop_bit 8 v), ucast v]"

definition bytes16 :: "16 word \<Rightarrow> byte list" where
  "bytes16 v = [ucast (drop_bit 8 v), ucast v]"

definition store32 :: "layout \<Rightarrow> 32 word \<Rightarrow> byte list" where
  "store32 L v = (if big_endian L then bytes32 v else rev (bytes32 v))"

definition mk_pcaprec_hdr :: "layout \<Rightarrow> 32 word \<Rightarrow> byte list" where
  "mk_pcaprec_hdr L incl_len =
     replicate (offsetof_incl_len L) 0 @ store32 L incl_len @
     replicate (sizeof_pcaprec_hdr L - (offsetof_incl_len L + 4)) 0"

definition mk_ip :: "16 word \<Rightarrow> 32 word \<Rightarrow> 32 word \<Rightarrow> byte list" where
  "mk_ip ip_len saddr daddr =
     [0x45, 0] @ bytes16 ip_len @ [0, 0, 0, 0, 64, 17, 0, 0] @ bytes32 saddr @ bytes32 daddr"

definition mk_udphdr :: "16 word \<Rightarrow> 16 word \<Rightarrow> 16 word \<Rightarrow> byte list" where
  "mk_udphdr sp dp uh_ulen = bytes16 sp @ bytes16 dp @ bytes16 uh_ulen @ [0, 0]"

definition mk_loopback_record ::
  "layout \<Rightarrow> 32 word \<Rightarrow> 32 word \<Rightarrow> 16 word \<Rightarrow> 16 word \<Rightarrow> byte list \<Rightarrow> byte list" where
  "mk_loopback_record L saddr daddr sp dp payload =
     mk_pcaprec_hdr L (of_nat (sizeof_family + sizeof_ip + sizeof_udphdr + length payload)) @
     store32 L (AF_INET L) @
     mk_ip (of_nat (sizeof_ip + sizeof_udphdr + length payload)) saddr daddr @
     mk_udphdr sp dp (of_nat (sizeof_udphdr + length payload)) @
     payload"

section \<open>Auxiliary lemmas\<close>

subsection \<open>Collections of defining equations, for evaluation\<close>

lemmas bytes_defs =
  mem_of_def pcaprec_bytes_def udpip_bytes_def udpip_opt_bytes_def sll_bytes_def
  ether_bytes_def null_rec_def null_other_rec_def null_empty_rec_def null_short_rec_def
  null_net_order_rec_def sll_rec_def sll_plain_rec_def sll_short_rec_def sll_other_rec_def
  en10t_rec_def en10t_other_rec_def null_one_short_rec_def

lemmas layout_defs =
  le_host_def sizeof_ip_def sizeof_udphdr_def sizeof_udpip_def sizeof_family_def
  offsetof_ip_src_def offsetof_ip_dst_def offsetof_uh_sport_def offsetof_uh_dport_def
  offsetof_udpip_udphdr_def sizeof_pkt_hdr_pcap_null_def offsetof_null_family_def
  offsetof_null_udpip_def sizeof_pkt_hdr_pcap_en10t_def offsetof_en10t_ether_type_def
  offsetof_en10t_udpip_def minimum_size_def header_length_def network_pair_def

lemmas read_defs =
  be16_def be32_def load16_def load32_def net16_def in_addr_at_def ip_hl_def
  incl_len_of_def is_ipv4_def step5_len_def

subsection \<open>Byte order and 32-bit signed arithmetic\<close>

lemma be16_swap: "be16 (ucast (be16 x y)) (ucast (drop_bit 8 (be16 x y))) = be16 y x"
  unfolding be16_def
  apply (rule bit_word_eqI)
  apply (auto simp add: bit_simps dest: bit_imp_le_length)
  done

lemma ntohs_load16: "ntohs L (load16 L bp a) = net16 bp a"
  by (simp add: ntohs_def load16_def be16_swap net16_def)

lemma be32_bytes:
  "be32 (ucast (drop_bit 24 v)) (ucast (drop_bit 16 v)) (ucast (drop_bit 8 v)) (ucast v) = v"
proof (rule bit_word_eqI)
  fix n :: nat
  assume "n < LENGTH(32)"
  then have "n < 32" by simp
  then consider "n < 8" | "8 \<le> n" "n < 16" | "16 \<le> n" "n < 24" | "24 \<le> n" "n < 32"
    by linarith
  then show "bit (be32 (ucast (drop_bit 24 v)) (ucast (drop_bit 16 v))
      (ucast (drop_bit 8 v)) (ucast v)) n = bit v n"
    by cases (auto simp add: be32_def bit_simps dest: bit_imp_le_length)
qed

lemma be16_bytes: "be16 (ucast (drop_bit 8 v)) (ucast v) = v"
  unfolding be16_def
  apply (rule bit_word_eqI)
  apply (auto simp add: bit_simps dest: bit_imp_le_length)
  done

text \<open>A value read is the value whose bytes are there: readers against writers.\<close>

lemma be16_parts:
  "ucast (drop_bit 8 (be16 x y)) = x" "ucast (be16 x y) = y"
  unfolding be16_def
  by (rule bit_word_eqI, auto simp add: bit_simps dest: bit_imp_le_length)+

lemma be32_parts:
  "ucast (drop_bit 24 (be32 a b c d)) = a"
  "ucast (drop_bit 16 (be32 a b c d)) = b"
  "ucast (drop_bit 8 (be32 a b c d)) = c"
  "ucast (be32 a b c d) = d"
  unfolding be32_def
  by (rule bit_word_eqI, auto simp add: bit_simps dest: bit_imp_le_length)+

lemma be16_eq_iff: "be16 x y = v \<longleftrightarrow> [x, y] = bytes16 v"
  using be16_parts [of x y] be16_bytes [of v] by (auto simp add: bytes16_def)

lemma be32_eq_iff: "be32 a b c d = v \<longleftrightarrow> [a, b, c, d] = bytes32 v"
  using be32_parts [of a b c d] be32_bytes [of v] by (auto simp add: bytes32_def)

lemma load32_eq_iff:
  "load32 L bp a = v \<longleftrightarrow> [bp a, bp (a + 1), bp (a + 2), bp (a + 3)] = store32 L v"
  by (auto simp add: load32_def store32_def be32_eq_iff bytes32_def)

lemma bytes16_ipv4: "bytes16 0x0800 = [0x08, 0x00]" "bytes16 0x0008 = [0x00, 0x08]"
  by (simp_all add: bytes16_def)

lemma net16_ipv4: "net16 bp a = 0x0800 \<longleftrightarrow> bp a = 0x08 \<and> bp (a + 1) = 0x00"
  by (simp add: net16_def be16_eq_iff bytes16_ipv4)

lemma load16_ipv4:
  "load16 L bp a = (if big_endian L then 0x0800 else 0x0008) \<longleftrightarrow>
   bp a = 0x08 \<and> bp (a + 1) = 0x00"
  by (auto simp add: load16_def be16_eq_iff bytes16_ipv4)

lemma sint_of_int_32:
  "- (2 ^ 31) \<le> k \<Longrightarrow> k < 2 ^ 31 \<Longrightarrow> sint (word_of_int k :: 32 word) = k"
  by (simp add: signed_of_int signed_take_bit_int_eq_self)

lemma sint_of_nat_diff:
  fixes a b :: nat
  assumes "a < 2 ^ 31" "b < 2 ^ 31"
  shows "sint (of_nat a - of_nat b :: 32 word) = int a - int b"
proof -
  have "(of_nat a - of_nat b :: 32 word) = word_of_int (int a - int b)" by simp
  moreover have "int a < 2 ^ 31" "int b < 2 ^ 31" using assms by simp_all
  then have "sint (word_of_int (int a - int b) :: 32 word) = int a - int b"
    by (intro sint_of_int_32) linarith+
  ultimately show ?thesis by simp
qed

lemma sint_sub_small:
  fixes w :: "32 word" and k :: nat
  assumes "int k \<le> sint w"
  shows "sint (w - of_nat k) = sint w - int k"
proof -
  have lt: "sint w < 2 ^ 31" using sint_lt [of w] by simp
  have "w - of_nat k = word_of_int (sint w - int k)" by simp
  moreover have "sint (word_of_int (sint w - int k) :: 32 word) = sint w - int k"
    using assms lt by (intro sint_of_int_32) linarith+
  ultimately show ?thesis by simp
qed

lemma sint_of_nat_small: "n < 2 ^ 31 \<Longrightarrow> sint (of_nat n :: 32 word) = int n"
  using sint_of_nat_diff [of n 0] by simp

subsection \<open>The function, step by step\<close>

text \<open>
  The three branches of the function differ only in the sizes and offsets they use, so
  the function is one chain of checks over the names of the previous section.
\<close>

lemma dissect_steps:
  "eaud_pcap_dissect L bp blen network =
     (if blen < minimum_size L network then (PCP_DSCT_TRNK, zero_dissect L)
      else if \<not> is_ipv4 L bp network then
        (PCP_DSCT_UNKN,
         (zero_dissect L)\<lparr>pcap_hdr_len := sizeof_pcaprec_hdr L + unat (incl_len_of L bp)\<rparr>)
      else dissect_l5 L bp network (incl_len_of L bp) (network_pair L network)
             ((zero_dissect L)
                \<lparr>pcaprec_hdr := copy_pcaprec_hdr L bp,
                 pcap_hdr_len := header_length L network,
                 udpip := Some (network_pair L network)\<rparr>))"
  by (simp add: eaud_pcap_dissect_def minimum_size_def is_ipv4_def incl_len_of_def
      network_pair_def header_length_def Let_def)

lemma l5_steps:
  "dissect_l5 L bp network (incl_len_of L bp) (network_pair L network)
     ((zero_dissect L)
        \<lparr>pcaprec_hdr := copy_pcaprec_hdr L bp,
         pcap_hdr_len := header_length L network,
         udpip := Some (network_pair L network)\<rparr>) =
   (let dp = after_step5 L bp network; u = network_pair L network;
        ip_hdr_len = ip_hl bp u * 4 in
    if sint (step5_len L bp network) < 0 then (PCP_DSCT_TRNK, dp)
    else if network = DLT_LINUX_SLL L then
      if sint (step5_len L bp network) < int (ip_hdr_len + sizeof_udphdr)
      then (PCP_DSCT_TRNK, dp)
      else
        (PCP_DSCT_OK,
         dp\<lparr>l5_data := Some (u + ip_hdr_len + sizeof_udphdr),
            l5_len := step5_len L bp network - of_nat (ip_hdr_len + sizeof_udphdr),
            src := Some (u + offsetof_ip_src),
            dst := Some (u + offsetof_ip_dst),
            sport := net16 bp (u + ip_hdr_len + offsetof_uh_sport),
            dport := net16 bp (u + ip_hdr_len + offsetof_uh_dport)\<rparr>)
    else
      (PCP_DSCT_OK,
       dp\<lparr>l5_data := Some (u + sizeof_udpip),
          src := Some (u + offsetof_ip_src),
          sport := net16 bp (u + offsetof_udpip_udphdr + offsetof_uh_sport),
          dst := Some (u + offsetof_ip_dst),
          dport := net16 bp (u + offsetof_udpip_udphdr + offsetof_uh_dport)\<rparr>))"
  by (simp add: dissect_l5_def after_step5_def step5_len_def Let_def ntohs_load16 ntohsp_def)

lemma dissect_cases:
  "eaud_pcap_dissect L bp blen network =
     (if blen < minimum_size L network then (PCP_DSCT_TRNK, zero_dissect L)
      else if \<not> is_ipv4 L bp network then
        (PCP_DSCT_UNKN,
         (zero_dissect L)\<lparr>pcap_hdr_len := sizeof_pcaprec_hdr L + unat (incl_len_of L bp)\<rparr>)
      else
        (let dp = after_step5 L bp network; u = network_pair L network;
             ip_hdr_len = ip_hl bp u * 4 in
         if sint (step5_len L bp network) < 0 then (PCP_DSCT_TRNK, dp)
         else if network = DLT_LINUX_SLL L then
           if sint (step5_len L bp network) < int (ip_hdr_len + sizeof_udphdr)
           then (PCP_DSCT_TRNK, dp)
           else
             (PCP_DSCT_OK,
              dp\<lparr>l5_data := Some (u + ip_hdr_len + sizeof_udphdr),
                 l5_len := step5_len L bp network - of_nat (ip_hdr_len + sizeof_udphdr),
                 src := Some (u + offsetof_ip_src),
                 dst := Some (u + offsetof_ip_dst),
                 sport := net16 bp (u + ip_hdr_len + offsetof_uh_sport),
                 dport := net16 bp (u + ip_hdr_len + offsetof_uh_dport)\<rparr>)
         else
           (PCP_DSCT_OK,
            dp\<lparr>l5_data := Some (u + sizeof_udpip),
               src := Some (u + offsetof_ip_src),
               sport := net16 bp (u + offsetof_udpip_udphdr + offsetof_uh_sport),
               dst := Some (u + offsetof_ip_dst),
               dport := net16 bp (u + offsetof_udpip_udphdr + offsetof_uh_dport)\<rparr>)))"
  by (simp only: dissect_steps l5_steps)

text \<open>Below the header length, line 115 gives the negative difference.\<close>

lemma step5_below_header:
  assumes "sizeof_pcaprec_hdr L + unat (incl_len_of L bp) < header_length L network"
    and "header_length L network < 2 ^ 31"
  shows "sint (step5_len L bp network) =
           int (sizeof_pcaprec_hdr L + unat (incl_len_of L bp)) - int (header_length L network)"
proof -
  have "step5_len L bp network =
          of_nat (sizeof_pcaprec_hdr L + unat (incl_len_of L bp)) - of_nat (header_length L network)"
    by (simp add: step5_len_def)
  then show ?thesis
    using assms by (simp add: sint_of_nat_diff del: of_nat_add)
qed

subsection \<open>Reads of the concrete buffers\<close>

lemma le_host_sizes:
  "minimum_size le_host (DLT_NULL le_host) = 48"
  "minimum_size le_host (DLT_LINUX_SLL le_host) = 32"
  "minimum_size le_host 1 = 58"
  "header_length le_host (DLT_NULL le_host) = 48"
  "header_length le_host (DLT_LINUX_SLL le_host) = 32"
  "header_length le_host 1 = 58"
  "network_pair le_host (DLT_NULL le_host) = 20"
  "network_pair le_host (DLT_LINUX_SLL le_host) = 32"
  "network_pair le_host 1 = 30"
  "sizeof_pcaprec_hdr le_host = 16"
  "sizeof_linux_sll_hdr le_host = 16"
  "offsetof_protocol le_host = 14"
  "DLT_NULL le_host \<noteq> DLT_LINUX_SLL le_host"
  by (simp_all add: layout_defs)

lemma be_host_sizes:
  "minimum_size be_host (DLT_NULL be_host) = 48"
  "minimum_size be_host (DLT_LINUX_SLL be_host) = 32"
  "minimum_size be_host 1 = 58"
  by (simp_all add: be_host_def layout_defs)

lemma host_facts:
  "big_endian le_host = False" "big_endian be_host = True"
  "ETHERTYPE_INET le_host = 0x0008" "ETHERTYPE_INET be_host = 0x0800"
  "AF_INET le_host = 2" "AF_INET be_host = 2"
  "DLT_NULL le_host = 0" "DLT_NULL be_host = 0"
  "DLT_LINUX_SLL le_host = 113" "DLT_LINUX_SLL be_host = 113"
  "sizeof_pcaprec_hdr le_host = 16" "sizeof_pcaprec_hdr be_host = 16"
  "offsetof_protocol le_host = 14" "offsetof_protocol be_host = 14"
  "offsetof_type le_host = 12" "offsetof_type be_host = 12"
  by (simp_all add: be_host_def le_host_def)

lemma discriminator_bytes:
  "mem_of null_rec 16 = 2" "mem_of null_rec 17 = 0"
  "mem_of null_rec 18 = 0" "mem_of null_rec 19 = 0"
  "mem_of null_net_order_rec 16 = 0" "mem_of null_net_order_rec 17 = 0"
  "mem_of null_net_order_rec 18 = 0" "mem_of null_net_order_rec 19 = 2"
  "mem_of sll_rec 30 = 0x08" "mem_of sll_rec 31 = 0x00"
  "mem_of en10t_rec 28 = 0x08" "mem_of en10t_rec 29 = 0x00"
  "mem_of en10t_other_rec 28 = 0x86" "mem_of en10t_other_rec 29 = 0xDD"
  by (simp_all add: bytes_defs)

lemma sll_short_hdr:
  "map (mem_of sll_short_rec) [0 ..< 16] = [0, 0, 0, 0, 0, 0, 0, 0, 36, 0, 0, 0, 36, 0, 0, 0]"
  by (simp add: upt_rec [of _ "numeral _"] bytes_defs)

lemma sixteen_zeros:
  "replicate 16 (0 :: byte) = [0, 0, 0, 0, 0, 0, 0, 0, 0, 0, 0, 0, 0, 0, 0, 0]"
  by (simp add: numeral_eq_Suc)

lemma null_rec_reads:
  "is_ipv4 le_host (mem_of null_rec) (DLT_NULL le_host)"
  "incl_len_of le_host (mem_of null_rec) = 36"
  by (simp_all add: layout_defs read_defs bytes_defs)

lemma null_other_reads:
  "\<not> is_ipv4 le_host (mem_of null_other_rec) (DLT_NULL le_host)"
  "incl_len_of le_host (mem_of null_other_rec) = 36"
  by (simp_all add: layout_defs read_defs bytes_defs)

lemma null_empty_reads:
  "is_ipv4 le_host (mem_of null_empty_rec) (DLT_NULL le_host)"
  "incl_len_of le_host (mem_of null_empty_rec) = 0"
  by (simp_all add: layout_defs read_defs bytes_defs)

lemma null_short_reads:
  "is_ipv4 le_host (mem_of null_short_rec) (DLT_NULL le_host)"
  "incl_len_of le_host (mem_of null_short_rec) = 8"
  by (simp_all add: layout_defs read_defs bytes_defs)

lemma null_net_order_reads:
  "be32 (mem_of null_net_order_rec 16) (mem_of null_net_order_rec 17)
     (mem_of null_net_order_rec 18) (mem_of null_net_order_rec 19) = AF_INET le_host"
  "load32 le_host (mem_of null_net_order_rec) (sizeof_pcaprec_hdr le_host) = 0x02000000"
  by (simp_all add: layout_defs read_defs bytes_defs)

lemma sll_rec_reads:
  "net16 (mem_of sll_rec) (sizeof_pcaprec_hdr le_host + offsetof_protocol le_host) = 0x0800"
  "incl_len_of le_host (mem_of sll_rec) = 52"
  "ip_hl (mem_of sll_rec) 32 = 6"
  by (simp_all add: layout_defs read_defs bytes_defs)

lemma sll_rec_bytes:
  "mem_of sll_rec (sizeof_pcaprec_hdr le_host + offsetof_protocol le_host) = 0x08"
  "mem_of sll_rec (sizeof_pcaprec_hdr le_host + offsetof_protocol le_host + 1) = 0x00"
  "mem_of sll_rec 32 = 0x46"
  "incl_len_of le_host (mem_of sll_rec) = 52"
  by (simp_all add: layout_defs read_defs bytes_defs)

lemma sll_plain_bytes:
  "mem_of sll_plain_rec (sizeof_pcaprec_hdr le_host + offsetof_protocol le_host) = 0x08"
  "mem_of sll_plain_rec (sizeof_pcaprec_hdr le_host + offsetof_protocol le_host + 1) = 0x00"
  "mem_of sll_plain_rec 32 = 0x45"
  "incl_len_of le_host (mem_of sll_plain_rec) = 48"
  by (simp_all add: layout_defs read_defs bytes_defs)

lemma sll_short_bytes:
  "mem_of sll_short_rec (sizeof_pcaprec_hdr le_host + offsetof_protocol le_host) = 0x08"
  "mem_of sll_short_rec (sizeof_pcaprec_hdr le_host + offsetof_protocol le_host + 1) = 0x00"
  "mem_of sll_short_rec 32 = 0x46"
  "incl_len_of le_host (mem_of sll_short_rec) = 36"
  by (simp_all add: layout_defs read_defs bytes_defs)



lemma sll_short_reads:
  "is_ipv4 le_host (mem_of sll_short_rec) (DLT_LINUX_SLL le_host)"
  "incl_len_of le_host (mem_of sll_short_rec) = 36"
  "ip_hl (mem_of sll_short_rec) 32 = 6"
  by (simp_all add: layout_defs read_defs bytes_defs ntohs_def)

lemma null_one_short_reads:
  "is_ipv4 le_host (mem_of null_one_short_rec) (DLT_NULL le_host)"
  "incl_len_of le_host (mem_of null_one_short_rec) = 31"
  by (simp_all add: layout_defs read_defs bytes_defs)

subsection \<open>The loopback record\<close>

text \<open>
  Every memory that holds a loopback IPv4/UDP record, however it was built, is dissected
  into the parts of that record.
\<close>

lemma loopback_record_dissected:
  assumes "loopback_udp_record L bp N saddr daddr sp dp"
    and "N < 2 ^ 31"
    and "blen = sizeof_pcaprec_hdr L + sizeof_family + sizeof_ip + sizeof_udphdr + N"
    and "DLT_NULL L \<noteq> DLT_LINUX_SLL L"
  shows
   "(let r = eaud_pcap_dissect L bp blen (DLT_NULL L) in
     fst r = PCP_DSCT_OK \<and>
     sint (l5_len (snd r)) = int N \<and>
     l5_data (snd r) = Some (blen - N) \<and>
     blen = sizeof_pcaprec_hdr L + unat (incl_len_of L bp) \<and>
     pcap_hdr_len (snd r) =
       sizeof_pcaprec_hdr L + sizeof_family + sizeof_ip + sizeof_udphdr \<and>
     map_option (in_addr_at bp) (src (snd r)) = Some saddr \<and>
     map_option (in_addr_at bp) (dst (snd r)) = Some daddr \<and>
     sport (snd r) = sp \<and> dport (snd r) = dp)"
proof -
  let ?n = "DLT_NULL L"
  let ?h = "sizeof_pcaprec_hdr L + sizeof_family + sizeof_ip + sizeof_udphdr"
  have rec: "unat (incl_len_of L bp) = sizeof_family + sizeof_ip + sizeof_udphdr + N"
    and fam: "load32 L bp (sizeof_pcaprec_hdr L) = AF_INET L"
    and sa: "in_addr_at bp (sizeof_pcaprec_hdr L + sizeof_family + offsetof_ip_src) = saddr"
    and da: "in_addr_at bp (sizeof_pcaprec_hdr L + sizeof_family + offsetof_ip_dst) = daddr"
    and sp: "net16 bp (sizeof_pcaprec_hdr L + sizeof_family + sizeof_ip + offsetof_uh_sport) = sp"
    and dp: "net16 bp (sizeof_pcaprec_hdr L + sizeof_family + sizeof_ip + offsetof_uh_dport) = dp"
    using assms(1) by (simp_all add: loopback_udp_record_def Let_def)
  have m: "\<not> blen < minimum_size L ?n"
    using assms(3) by (simp add: minimum_size_def sizeof_pkt_hdr_pcap_null_def sizeof_udpip_def)
  have i: "is_ipv4 L bp ?n"
    using fam by (simp add: is_ipv4_def offsetof_null_family_def)
  have u: "network_pair L ?n = sizeof_pcaprec_hdr L + sizeof_family"
    by (simp add: network_pair_def offsetof_null_udpip_def)
  have h: "header_length L ?n = ?h"
    by (simp add: header_length_def sizeof_pkt_hdr_pcap_null_def sizeof_udpip_def)
  have "incl_len_of L bp = of_nat (unat (incl_len_of L bp))" by simp
  then have "incl_len_of L bp = of_nat (sizeof_family + sizeof_ip + sizeof_udphdr + N)"
    by (simp only: rec)
  then have s: "step5_len L bp ?n = of_nat N"
    by (simp add: step5_len_def h)
  have sN': "sint (of_nat N :: 32 word) = int N"
    using assms(2) by (simp add: sint_of_nat_small)
  have sN: "sint (step5_len L bp ?n) = int N"
    by (simp add: s sN')
  have r: "eaud_pcap_dissect L bp blen ?n =
      (PCP_DSCT_OK,
       (after_step5 L bp ?n)
         \<lparr>l5_data := Some (sizeof_pcaprec_hdr L + sizeof_family + sizeof_udpip),
          src := Some (sizeof_pcaprec_hdr L + sizeof_family + offsetof_ip_src),
          sport := sp,
          dst := Some (sizeof_pcaprec_hdr L + sizeof_family + offsetof_ip_dst),
          dport := dp\<rparr>)"
    using assms(4)
    by (simp add: dissect_cases m i u Let_def sN offsetof_udpip_udphdr_def sp dp)
  have d: "blen - N = sizeof_pcaprec_hdr L + sizeof_family + sizeof_udpip"
    using assms(3) by (simp add: sizeof_udpip_def)
  have e: "blen = sizeof_pcaprec_hdr L + unat (incl_len_of L bp)"
    using assms(3) rec by simp
  let ?r = "eaud_pcap_dissect L bp blen ?n"
  have c1: "fst ?r = PCP_DSCT_OK" by (simp add: r)
  have c2: "sint (l5_len (snd ?r)) = int N" by (simp add: r after_step5_def s sN')
  have c3: "l5_data (snd ?r) = Some (blen - N)" by (simp add: r d)
  have c4: "pcap_hdr_len (snd ?r) = ?h"
    by (simp add: r after_step5_def h)
  have c6: "map_option (in_addr_at bp) (src (snd ?r)) = Some saddr" by (simp add: r sa)
  have c7: "map_option (in_addr_at bp) (dst (snd ?r)) = Some daddr" by (simp add: r da)
  have c8: "sport (snd ?r) = sp" by (simp add: r)
  have c9: "dport (snd ?r) = dp" by (simp add: r)
  show ?thesis
    unfolding Let_def using c1 c2 c3 e c4 c6 c7 c8 c9 by (intro conjI)
qed

text \<open>The record that \<open>mk_loopback_record\<close> builds is such a record.\<close>

lemma mem_of_append_right: "mem_of (xs @ ys) (length xs + k) = mem_of ys k"
  by (simp add: mem_of_def nth_append)

lemma length_store32 [simp]: "length (store32 L v) = 4"
  by (simp add: store32_def bytes32_def)

lemma load32_store32: "load32 L (mem_of (store32 L v @ ys)) 0 = v"
  by (simp add: load32_def store32_def bytes32_def mem_of_def be32_bytes)

lemma mem_of_shift: "(\<lambda>i. mem_of (xs @ ys) (length xs + i)) = mem_of ys"
  by (rule ext) (rule mem_of_append_right)

lemma load32_offset: "load32 L m (a + k) = load32 L (\<lambda>i. m (a + i)) k"
  by (simp add: load32_def add.assoc)

lemma net16_offset: "net16 m (a + k) = net16 (\<lambda>i. m (a + i)) k"
  by (simp add: net16_def add.assoc)

lemma in_addr_offset: "in_addr_at m (a + k) = in_addr_at (\<lambda>i. m (a + i)) k"
  by (simp add: in_addr_at_def add.assoc)

lemma load32_shift: "load32 L (mem_of (xs @ ys)) (length xs + k) = load32 L (mem_of ys) k"
  by (simp only: load32_offset mem_of_shift)

lemma net16_shift: "net16 (mem_of (xs @ ys)) (length xs + k) = net16 (mem_of ys) k"
  by (simp only: net16_offset mem_of_shift)

lemma in_addr_shift: "in_addr_at (mem_of (xs @ ys)) (length xs + k) = in_addr_at (mem_of ys) k"
  by (simp only: in_addr_offset mem_of_shift)

lemma length_mk_pcaprec_hdr:
  "offsetof_incl_len L + 4 \<le> sizeof_pcaprec_hdr L \<Longrightarrow>
   length (mk_pcaprec_hdr L v) = sizeof_pcaprec_hdr L"
  by (simp add: mk_pcaprec_hdr_def)

lemma incl_len_mk:
  "incl_len_of L (mem_of (mk_pcaprec_hdr L v @ ys)) = v"
proof -
  have "load32 L (mem_of (replicate (offsetof_incl_len L) 0 @ (store32 L v @
     replicate (sizeof_pcaprec_hdr L - (offsetof_incl_len L + 4)) 0 @ ys)))
     (length (replicate (offsetof_incl_len L) (0::byte)) + 0) = v"
    by (simp only: load32_shift load32_store32)
  then show ?thesis by (simp add: incl_len_of_def mk_pcaprec_hdr_def)
qed

lemma mk_loopback_record_valid:
  assumes "offsetof_incl_len L + 4 \<le> sizeof_pcaprec_hdr L"
    and "sizeof_family + sizeof_ip + sizeof_udphdr + length payload < 2 ^ 32"
  shows "loopback_udp_record L (mem_of (mk_loopback_record L saddr daddr sp dp payload))
           (length payload) saddr daddr sp dp"
proof -
  let ?v = "of_nat (sizeof_family + sizeof_ip + sizeof_udphdr + length payload) :: 32 word"
  let ?hdr = "mk_pcaprec_hdr L ?v"
  let ?fam = "store32 L (AF_INET L)"
  let ?ip = "mk_ip (of_nat (sizeof_ip + sizeof_udphdr + length payload)) saddr daddr"
  let ?udp = "mk_udphdr sp dp (of_nat (sizeof_udphdr + length payload))"
  let ?m = "mem_of (mk_loopback_record L saddr daddr sp dp payload)"
  have m: "mk_loopback_record L saddr daddr sp dp payload = ?hdr @ ?fam @ ?ip @ ?udp @ payload"
    by (simp add: mk_loopback_record_def)
  have lh: "length (mk_pcaprec_hdr L v) = sizeof_pcaprec_hdr L" for v
    using assms(1) by (rule length_mk_pcaprec_hdr)
  have lf: "length ?fam = sizeof_family"
    by (simp add: sizeof_family_def)
  have li: "length (mk_ip l saddr daddr) = sizeof_ip" for l
    by (simp add: mk_ip_def bytes32_def bytes16_def sizeof_ip_def)
  have "incl_len_of L ?m = ?v"
    unfolding m by (rule incl_len_mk)
  then have c1: "unat (incl_len_of L ?m) =
      sizeof_family + sizeof_ip + sizeof_udphdr + length payload"
    using of_nat_inverse [of "sizeof_family + sizeof_ip + sizeof_udphdr + length payload" ?v]
      assms(2) by simp
  have "load32 L ?m (length ?hdr + 0) = AF_INET L"
    unfolding m by (simp only: load32_shift load32_store32)
  then have c2: "load32 L ?m (sizeof_pcaprec_hdr L) = AF_INET L"
    by (simp add: lh)
  have ip: "in_addr_at ?m (length ?hdr + (length ?fam + k)) =
      in_addr_at (mem_of (?ip @ ?udp @ payload)) k" for k
    unfolding m by (simp only: in_addr_shift)
  have v3: "in_addr_at (mem_of (?ip @ ?udp @ payload)) offsetof_ip_src = saddr"
    by (simp add: in_addr_at_def mem_of_def mk_ip_def bytes32_def bytes16_def
        offsetof_ip_src_def be32_bytes)
  have c3: "in_addr_at ?m (sizeof_pcaprec_hdr L + sizeof_family + offsetof_ip_src) = saddr"
    using ip [of offsetof_ip_src] v3 by (simp only: lh lf add.assoc)
  have v4: "in_addr_at (mem_of (?ip @ ?udp @ payload)) offsetof_ip_dst = daddr"
    by (simp add: in_addr_at_def mem_of_def mk_ip_def bytes32_def bytes16_def
        offsetof_ip_dst_def be32_bytes)
  have c4: "in_addr_at ?m (sizeof_pcaprec_hdr L + sizeof_family + offsetof_ip_dst) = daddr"
    using ip [of offsetof_ip_dst] v4 by (simp only: lh lf add.assoc)
  have udp: "net16 ?m (length ?hdr + (length ?fam + (length ?ip + k))) =
      net16 (mem_of (?udp @ payload)) k" for k
    unfolding m by (simp only: net16_shift)
  have v5: "net16 (mem_of (?udp @ payload)) offsetof_uh_sport = sp"
    by (simp add: net16_def mem_of_def mk_udphdr_def bytes16_def offsetof_uh_sport_def
        be16_bytes)
  have c5: "net16 ?m (sizeof_pcaprec_hdr L + sizeof_family + sizeof_ip + offsetof_uh_sport) = sp"
    using udp [of offsetof_uh_sport] v5 by (simp only: lh lf li add.assoc)
  have v6: "net16 (mem_of (?udp @ payload)) offsetof_uh_dport = dp"
    by (simp add: net16_def mem_of_def mk_udphdr_def bytes16_def offsetof_uh_dport_def
        be16_bytes)
  have c6: "net16 ?m (sizeof_pcaprec_hdr L + sizeof_family + sizeof_ip + offsetof_uh_dport) = dp"
    using udp [of offsetof_uh_dport] v6 by (simp only: lh lf li add.assoc)
  show ?thesis
    unfolding loopback_udp_record_def Let_def
    using c1 c2 c3 c4 c5 c6 by (intro conjI)
qed

lemma length_mk_loopback_record:
  "offsetof_incl_len L + 4 \<le> sizeof_pcaprec_hdr L \<Longrightarrow>
   length (mk_loopback_record L saddr daddr sp dp payload) =
     sizeof_pcaprec_hdr L + sizeof_family + sizeof_ip + sizeof_udphdr + length payload"
  by (simp add: mk_loopback_record_def length_mk_pcaprec_hdr mk_ip_def mk_udphdr_def
      bytes32_def bytes16_def sizeof_family_def sizeof_ip_def sizeof_udphdr_def)

lemma mem_of_suffix:
  "map (mem_of (xs @ ys)) [length xs ..< length xs + length ys] = ys"
proof (rule nth_equalityI)
  show "length (map (mem_of (xs @ ys)) [length xs ..< length xs + length ys]) = length ys"
    by simp
next
  fix i
  assume "i < length (map (mem_of (xs @ ys)) [length xs ..< length xs + length ys])"
  then have i: "i < length ys" by simp
  then have "map (mem_of (xs @ ys)) [length xs ..< length xs + length ys] ! i =
      mem_of (xs @ ys) (length xs + i)"
    by simp
  also have "\<dots> = mem_of ys i" by (rule mem_of_append_right)
  also have "\<dots> = ys ! i" using i by (simp add: mem_of_def)
  finally show "map (mem_of (xs @ ys)) [length xs ..< length xs + length ys] ! i = ys ! i" .
qed

lemma mem_of_tail:
  "map (mem_of (xs @ ys)) [length (xs @ ys) - length ys ..< length (xs @ ys)] = ys"
  using mem_of_suffix [of xs ys] by simp

lemma payload_of_mk_loopback_record:
  "map (mem_of (mk_loopback_record L saddr daddr sp dp payload))
     [length (mk_loopback_record L saddr daddr sp dp payload) - length payload ..<
      length (mk_loopback_record L saddr daddr sp dp payload)] = payload"
proof -
  let ?v = "of_nat (sizeof_family + sizeof_ip + sizeof_udphdr + length payload) :: 32 word"
  let ?pre = "mk_pcaprec_hdr L ?v @ store32 L (AF_INET L) @
    mk_ip (of_nat (sizeof_ip + sizeof_udphdr + length payload)) saddr daddr @
    mk_udphdr sp dp (of_nat (sizeof_udphdr + length payload))"
  have m: "mk_loopback_record L saddr daddr sp dp payload = ?pre @ payload"
    by (simp add: mk_loopback_record_def)
  show ?thesis
    unfolding m by (rule mem_of_tail)
qed

section \<open>Theorems\<close>

subsection \<open>The loopback round trip\<close>

text \<open>
  C1. For every loopback-framed (\<^verbatim>\<open>DLT_NULL\<close>) IPv4/UDP record built with an \<open>N\<close>-byte
  payload, the dissector returns Ok; the payload length \<^verbatim>\<open>l5_len\<close> is \<open>N\<close>; the payload
  start \<^verbatim>\<open>l5_data\<close> lies exactly \<open>N\<close> bytes before the end of the record's declared
  extent, which is the end of the buffer, and the bytes from there on are the payload;
  \<^verbatim>\<open>pcap_hdr_len\<close> is the size of the whole fixed aggregate, record header plus family
  field plus IP header plus UDP header; the source and destination references point at
  the addresses placed in the IP header, and the ports are those placed in the UDP
  header, in host byte order.

  The payload of a UDP datagram has at most 65507 bytes, so \<open>N\<close> is below \<open>2 ^ 31\<close>, the
  range of the \<^verbatim>\<open>int\<close> that holds the length. The declared captured length lies inside
  the record header, and the two link-type tags are different numbers.
\<close>

theorem loopback_roundtrip:
  assumes "offsetof_incl_len L + 4 \<le> sizeof_pcaprec_hdr L"
    and "length payload < 2 ^ 31"
    and "DLT_NULL L \<noteq> DLT_LINUX_SLL L"
  shows
   "(let buf = mk_loopback_record L saddr daddr sp dp payload;
         N = length payload;
         r = eaud_pcap_dissect L (mem_of buf) (length buf) (DLT_NULL L) in
     fst r = PCP_DSCT_OK \<and>
     sint (l5_len (snd r)) = int N \<and>
     l5_data (snd r) = Some (length buf - N) \<and>
     length buf = sizeof_pcaprec_hdr L + unat (incl_len_of L (mem_of buf)) \<and>
     map (mem_of buf) [length buf - N ..< length buf] = payload \<and>
     pcap_hdr_len (snd r) =
       sizeof_pcaprec_hdr L + sizeof_family + sizeof_ip + sizeof_udphdr \<and>
     map_option (in_addr_at (mem_of buf)) (src (snd r)) = Some saddr \<and>
     map_option (in_addr_at (mem_of buf)) (dst (snd r)) = Some daddr \<and>
     sport (snd r) = sp \<and> dport (snd r) = dp)"
proof -
  let ?buf = "mk_loopback_record L saddr daddr sp dp payload"
  have "sizeof_family + sizeof_ip + sizeof_udphdr + length payload < 2 ^ 31 + 32"
    using assms(2) by (simp add: sizeof_family_def sizeof_ip_def sizeof_udphdr_def)
  then have b: "sizeof_family + sizeof_ip + sizeof_udphdr + length payload < 2 ^ 32"
    by simp
  have v: "loopback_udp_record L (mem_of ?buf) (length payload) saddr daddr sp dp"
    using assms(1) b by (rule mk_loopback_record_valid)
  have l: "length ?buf =
      sizeof_pcaprec_hdr L + sizeof_family + sizeof_ip + sizeof_udphdr + length payload"
    using assms(1) by (rule length_mk_loopback_record)
  note t = loopback_record_dissected [OF v assms(2) l assms(3), unfolded Let_def]
  note p = payload_of_mk_loopback_record [of L saddr daddr sp dp payload]
  show ?thesis
    unfolding Let_def using t p by (intro conjI) (elim conjE, assumption)+
qed

text \<open>
  The round trip on a little-endian host: 10.0.0.1 port 5060 to 10.0.0.2 port 5062, four
  bytes of payload, which start at byte 48 of the 52.
\<close>

theorem loopback_roundtrip_witness:
  "offsetof_incl_len le_host + 4 \<le> sizeof_pcaprec_hdr le_host \<and>
   length [1, 2, 3, 4 :: byte] < 2 ^ 31 \<and>
   DLT_NULL le_host \<noteq> DLT_LINUX_SLL le_host \<and>
   (let buf = mk_loopback_record le_host 0x0A000001 0x0A000002 5060 5062 [1, 2, 3, 4];
        r = eaud_pcap_dissect le_host (mem_of buf) (length buf) (DLT_NULL le_host) in
    length buf = 52 \<and>
    fst r = PCP_DSCT_OK \<and> sint (l5_len (snd r)) = 4 \<and> l5_data (snd r) = Some 48 \<and>
    map (mem_of buf) [48 ..< 52] = [1, 2, 3, 4] \<and>
    pcap_hdr_len (snd r) = 48 \<and>
    map_option (in_addr_at (mem_of buf)) (src (snd r)) = Some 0x0A000001 \<and>
    map_option (in_addr_at (mem_of buf)) (dst (snd r)) = Some 0x0A000002 \<and>
    sport (snd r) = 5060 \<and> dport (snd r) = 5062)"
proof -
  have h1: "offsetof_incl_len le_host + 4 \<le> sizeof_pcaprec_hdr le_host"
    by (simp add: le_host_def)
  have h2: "length [1, 2, 3, 4 :: byte] < 2 ^ 31" by simp
  have h3: "DLT_NULL le_host \<noteq> DLT_LINUX_SLL le_host" by (simp add: le_host_def)
  have l: "length (mk_loopback_record le_host 0x0A000001 0x0A000002 5060 5062 [1, 2, 3, 4]) = 52"
    by (simp add: length_mk_loopback_record [OF h1] le_host_sizes sizeof_family_def
        sizeof_ip_def sizeof_udphdr_def)
  have s: "sizeof_pcaprec_hdr le_host + sizeof_family + sizeof_ip + sizeof_udphdr = 48"
    by (simp add: le_host_sizes sizeof_family_def sizeof_ip_def sizeof_udphdr_def)
  note t = loopback_roundtrip
    [OF h1 h2 h3, of "0x0A000001" "0x0A000002" 5060 5062, unfolded Let_def l s]
  show ?thesis
    unfolding Let_def l using h1 h3 t by simp
qed

subsection \<open>The Unknown outcome\<close>



subsection \<open>Short buffers\<close>

text \<open>
  C5. For each of the three framings, a buffer shorter than the framing's minimum header
  size gives Truncated, and every field of the result is at its zero default: the copied
  record header is all zero bytes, the header length, the payload length and the two
  ports are 0, and the network-pair, source, destination and payload references are
  null.
\<close>

theorem short_buffer_truncated_zero:
  "blen < minimum_size L network \<Longrightarrow>
   eaud_pcap_dissect L bp blen network =
     (PCP_DSCT_TRNK,
      \<lparr>pcaprec_hdr = replicate (sizeof_pcaprec_hdr L) 0, pcap_hdr_len = 0,
       udpip = None, src = None, dst = None, sport = 0, dport = 0,
       l5_len = 0, l5_data = None\<rparr>)"
  by (simp add: dissect_cases zero_dissect_def)

text \<open>
  On \<open>le_host\<close> the three framings ask for 48, 32 and 58 bytes; 47, 31 and 57 bytes of
  records that are well-formed IPv4 give Truncated and sixteen zero bytes of record
  header, with every other field zero.
\<close>

theorem short_buffer_truncated_zero_witness:
  "47 < minimum_size le_host (DLT_NULL le_host) \<and>
   31 < minimum_size le_host (DLT_LINUX_SLL le_host) \<and>
   57 < minimum_size le_host 1 \<and>
   eaud_pcap_dissect le_host (mem_of null_rec) 47 (DLT_NULL le_host) =
     (PCP_DSCT_TRNK,
      \<lparr>pcaprec_hdr = [0, 0, 0, 0, 0, 0, 0, 0, 0, 0, 0, 0, 0, 0, 0, 0], pcap_hdr_len = 0,
       udpip = None, src = None, dst = None, sport = 0, dport = 0,
       l5_len = 0, l5_data = None\<rparr>) \<and>
   eaud_pcap_dissect le_host (mem_of sll_rec) 31 (DLT_LINUX_SLL le_host) =
     (PCP_DSCT_TRNK,
      \<lparr>pcaprec_hdr = [0, 0, 0, 0, 0, 0, 0, 0, 0, 0, 0, 0, 0, 0, 0, 0], pcap_hdr_len = 0,
       udpip = None, src = None, dst = None, sport = 0, dport = 0,
       l5_len = 0, l5_data = None\<rparr>) \<and>
   eaud_pcap_dissect le_host (mem_of en10t_rec) 57 1 =
     (PCP_DSCT_TRNK,
      \<lparr>pcaprec_hdr = [0, 0, 0, 0, 0, 0, 0, 0, 0, 0, 0, 0, 0, 0, 0, 0], pcap_hdr_len = 0,
       udpip = None, src = None, dst = None, sport = 0, dport = 0,
       l5_len = 0, l5_data = None\<rparr>)"
proof -
  have h1: "47 < minimum_size le_host (DLT_NULL le_host)"
    and h2: "31 < minimum_size le_host (DLT_LINUX_SLL le_host)"
    and h3: "57 < minimum_size le_host 1"
    by (simp_all add: le_host_sizes)
  note a = short_buffer_truncated_zero [OF h1, of "mem_of null_rec", unfolded le_host_sizes sixteen_zeros]
  note b = short_buffer_truncated_zero [OF h2, of "mem_of sll_rec", unfolded le_host_sizes sixteen_zeros]
  note c = short_buffer_truncated_zero [OF h3, of "mem_of en10t_rec", unfolded le_host_sizes sixteen_zeros]
  show ?thesis
    using h1 h2 h3 a b c by simp
qed

subsection \<open>The variable path of the Linux cooked framing\<close>

text \<open>
  C3. For every Linux cooked (\<^verbatim>\<open>DLT_LINUX_SLL\<close>) record that passes the minimum-size
  check and whose protocol field is 0x0800 (the bytes 08 00): with \<open>ip_header_bytes\<close> the
  IP header-length field, which is the low four bits of the first byte of the IP header,
  times 4, the dissector returns Truncated if the payload length computed in step 5 is
  less than \<open>ip_header_bytes\<close> plus the 8 bytes of the UDP header; otherwise it returns
  Ok, the payload starts right after the UDP header (IP start, plus \<open>ip_header_bytes\<close>,
  plus 8), and the payload length is the one of step 5 less \<open>ip_header_bytes\<close> plus 8.

  The payload length of step 5 is the \<^verbatim>\<open>int\<close> the code computes from \<^verbatim>\<open>incl_len\<close>, the
  record header size and the header length; it is \<^verbatim>\<open>incl_len\<close> less the size of the link
  header whenever both are below \<open>2 ^ 31\<close>.
\<close>

theorem linux_sll_variable_path:
  assumes "DLT_LINUX_SLL L \<noteq> DLT_NULL L"
    and "sizeof_pcaprec_hdr L + sizeof_linux_sll_hdr L \<le> blen"
    and "bp (sizeof_pcaprec_hdr L + offsetof_protocol L) = 0x08"
    and "bp (sizeof_pcaprec_hdr L + offsetof_protocol L + 1) = 0x00"
  shows
   "(let iphdr = sizeof_pcaprec_hdr L + sizeof_linux_sll_hdr L;
         ip_header_bytes = unat (bp iphdr AND 0x0F) * 4;
         payload_length =
           sint (incl_len_of L bp + of_nat (sizeof_pcaprec_hdr L)
                 - of_nat (sizeof_pcaprec_hdr L + sizeof_linux_sll_hdr L));
         r = eaud_pcap_dissect L bp blen (DLT_LINUX_SLL L) in
     (unat (incl_len_of L bp) < 2 ^ 31 \<and> sizeof_linux_sll_hdr L < 2 ^ 31 \<longrightarrow>
        payload_length = int (unat (incl_len_of L bp)) - int (sizeof_linux_sll_hdr L)) \<and>
     (if payload_length < int (ip_header_bytes + 8) then fst r = PCP_DSCT_TRNK
      else fst r = PCP_DSCT_OK \<and>
           l5_data (snd r) = Some (iphdr + ip_header_bytes + 8) \<and>
           sint (l5_len (snd r)) = payload_length - int (ip_header_bytes + 8)))"
proof -
  let ?n = "DLT_LINUX_SLL L"
  have m: "\<not> blen < minimum_size L ?n"
    using assms by (simp add: minimum_size_def)
  have "net16 bp (sizeof_pcaprec_hdr L + offsetof_protocol L) = 0x0800"
    using assms(3,4) by (simp add: net16_ipv4)
  then have i: "is_ipv4 L bp ?n"
    using assms(1) by (simp add: is_ipv4_def ntohs_load16)
  have u: "network_pair L ?n = sizeof_pcaprec_hdr L + sizeof_linux_sll_hdr L"
    using assms by (simp add: network_pair_def)
  have s: "step5_len L bp ?n =
      incl_len_of L bp + of_nat (sizeof_pcaprec_hdr L)
        - of_nat (sizeof_pcaprec_hdr L + sizeof_linux_sll_hdr L)"
    using assms(1) by (simp add: step5_len_def header_length_def)
  have eq: "step5_len L bp ?n =
      of_nat (unat (incl_len_of L bp)) - of_nat (sizeof_linux_sll_hdr L)"
    using assms(1) by (simp add: step5_len_def header_length_def)
  have p: "unat (incl_len_of L bp) < 2 ^ 31 \<and> sizeof_linux_sll_hdr L < 2 ^ 31 \<longrightarrow>
      sint (step5_len L bp ?n) = int (unat (incl_len_of L bp)) - int (sizeof_linux_sll_hdr L)"
    unfolding eq
    using sint_of_nat_diff [of "unat (incl_len_of L bp)" "sizeof_linux_sll_hdr L"] by blast
  have q: "(let iphdr = sizeof_pcaprec_hdr L + sizeof_linux_sll_hdr L;
         ip_header_bytes = unat (bp iphdr AND 0x0F) * 4;
         payload_length = sint (step5_len L bp ?n);
         r = eaud_pcap_dissect L bp blen ?n in
     if payload_length < int (ip_header_bytes + 8) then fst r = PCP_DSCT_TRNK
     else fst r = PCP_DSCT_OK \<and>
          l5_data (snd r) = Some (iphdr + ip_header_bytes + 8) \<and>
          sint (l5_len (snd r)) = payload_length - int (ip_header_bytes + 8))"
    by (simp add: dissect_cases m i u Let_def sint_sub_small ip_hl_def sizeof_udphdr_def
        del: of_nat_add)
  show ?thesis
    using p q unfolding Let_def s by (intro conjI)
qed

text \<open>
  Three records on \<open>le_host\<close>, where the IP header starts at byte 32. \<open>sll_rec\<close> has the
  first IP byte 0x46, a 24-byte header, and declares 52 bytes: step 5 leaves 36, which
  cover 24 + 8, so Ok with the payload at byte 64 and 4 bytes long. \<open>sll_plain_rec\<close> has
  the first IP byte 0x45, a 20-byte header, and declares 48 bytes: step 5 leaves 32,
  which cover 20 + 8, so Ok with the payload at byte 60 and 4 bytes long.
  \<open>sll_short_rec\<close> has the first IP byte 0x46 and declares 36 bytes: step 5 leaves 20,
  less than 24 + 8, so Truncated.
\<close>

theorem linux_sll_variable_path_witness:
  "DLT_LINUX_SLL le_host \<noteq> DLT_NULL le_host \<and>
   sizeof_pcaprec_hdr le_host + sizeof_linux_sll_hdr le_host \<le> 68 \<and>
   mem_of sll_rec (sizeof_pcaprec_hdr le_host + offsetof_protocol le_host) = 0x08 \<and>
   mem_of sll_rec (sizeof_pcaprec_hdr le_host + offsetof_protocol le_host + 1) = 0x00 \<and>
   mem_of sll_rec 32 = 0x46 \<and>
   (let r = eaud_pcap_dissect le_host (mem_of sll_rec) 68 (DLT_LINUX_SLL le_host) in
    fst r = PCP_DSCT_OK \<and> l5_data (snd r) = Some 64 \<and> sint (l5_len (snd r)) = 4) \<and>
   sizeof_pcaprec_hdr le_host + sizeof_linux_sll_hdr le_host \<le> 64 \<and>
   mem_of sll_plain_rec (sizeof_pcaprec_hdr le_host + offsetof_protocol le_host) = 0x08 \<and>
   mem_of sll_plain_rec (sizeof_pcaprec_hdr le_host + offsetof_protocol le_host + 1) = 0x00 \<and>
   mem_of sll_plain_rec 32 = 0x45 \<and>
   (let r = eaud_pcap_dissect le_host (mem_of sll_plain_rec) 64 (DLT_LINUX_SLL le_host) in
    fst r = PCP_DSCT_OK \<and> l5_data (snd r) = Some 60 \<and> sint (l5_len (snd r)) = 4) \<and>
   sizeof_pcaprec_hdr le_host + sizeof_linux_sll_hdr le_host \<le> 56 \<and>
   mem_of sll_short_rec (sizeof_pcaprec_hdr le_host + offsetof_protocol le_host) = 0x08 \<and>
   mem_of sll_short_rec (sizeof_pcaprec_hdr le_host + offsetof_protocol le_host + 1) = 0x00 \<and>
   mem_of sll_short_rec 32 = 0x46 \<and>
   fst (eaud_pcap_dissect le_host (mem_of sll_short_rec) 56 (DLT_LINUX_SLL le_host)) =
     PCP_DSCT_TRNK"
proof -
  have h1: "DLT_LINUX_SLL le_host \<noteq> DLT_NULL le_host"
    by (simp add: le_host_def)
  have a2: "sizeof_pcaprec_hdr le_host + sizeof_linux_sll_hdr le_host \<le> 68"
    and b2: "sizeof_pcaprec_hdr le_host + sizeof_linux_sll_hdr le_host \<le> 64"
    and c2: "sizeof_pcaprec_hdr le_host + sizeof_linux_sll_hdr le_host \<le> 56"
    by (simp_all add: le_host_sizes)
  note a = linux_sll_variable_path [OF h1 a2 sll_rec_bytes(1,2), unfolded Let_def]
  note b = linux_sll_variable_path [OF h1 b2 sll_plain_bytes(1,2), unfolded Let_def]
  note c = linux_sll_variable_path [OF h1 c2 sll_short_bytes(1,2), unfolded Let_def]
  show ?thesis
    unfolding Let_def
    using h1 a2 b2 c2 sll_rec_bytes(1,2) sll_plain_bytes(1,2) sll_short_bytes(1,2) a b c
    by (simp add: le_host_sizes sll_rec_bytes(3,4) sll_plain_bytes(3,4) sll_short_bytes(3,4))
qed

subsection \<open>The guard against a negative payload length\<close>

text \<open>
  C4, as amended. Whenever the dissector returns Ok or Unknown, the payload length
  \<^verbatim>\<open>l5_len\<close> in the result is not negative, for every 32-bit value of \<^verbatim>\<open>incl_len\<close>, also
  where the computation of line 115 wraps. Every record that carries the IPv4
  discriminator and declares an \<^verbatim>\<open>incl_len\<close> with \<^verbatim>\<open>incl_len\<close> plus the record header size
  below the header length of its framing gives Truncated; when it has passed the
  minimum-size check, the result holds the negative difference in \<^verbatim>\<open>l5_len\<close>.
\<close>

theorem negative_length_guard:
  "(fst (eaud_pcap_dissect L bp blen network) \<noteq> PCP_DSCT_TRNK \<longrightarrow>
      0 \<le> sint (l5_len (snd (eaud_pcap_dissect L bp blen network)))) \<and>
   (is_ipv4 L bp network \<and> header_length L network < 2 ^ 31 \<and>
    sizeof_pcaprec_hdr L + unat (incl_len_of L bp) < header_length L network \<longrightarrow>
      fst (eaud_pcap_dissect L bp blen network) = PCP_DSCT_TRNK \<and>
      (minimum_size L network \<le> blen \<longrightarrow>
         sint (l5_len (snd (eaud_pcap_dissect L bp blen network))) =
           int (sizeof_pcaprec_hdr L + unat (incl_len_of L bp)) -
           int (header_length L network)))"
proof (intro conjI impI)
  assume "fst (eaud_pcap_dissect L bp blen network) \<noteq> PCP_DSCT_TRNK"
  then show "0 \<le> sint (l5_len (snd (eaud_pcap_dissect L bp blen network)))"
    by (auto simp add: dissect_cases Let_def zero_dissect_def after_step5_def sint_sub_small
        split: if_splits simp del: of_nat_add)
next
  assume a: "is_ipv4 L bp network \<and> header_length L network < 2 ^ 31 \<and>
    sizeof_pcaprec_hdr L + unat (incl_len_of L bp) < header_length L network"
  then have s: "sint (step5_len L bp network) =
      int (sizeof_pcaprec_hdr L + unat (incl_len_of L bp)) - int (header_length L network)"
    by (simp add: step5_below_header)
  then have n: "sint (step5_len L bp network) < 0" using a by linarith
  from a show "fst (eaud_pcap_dissect L bp blen network) = PCP_DSCT_TRNK"
    by (simp add: dissect_cases Let_def n)
  assume "minimum_size L network \<le> blen"
  with a have r: "eaud_pcap_dissect L bp blen network =
      (PCP_DSCT_TRNK, after_step5 L bp network)"
    by (simp add: dissect_cases Let_def n)
  show "sint (l5_len (snd (eaud_pcap_dissect L bp blen network))) =
        int (sizeof_pcaprec_hdr L + unat (incl_len_of L bp)) - int (header_length L network)"
    by (simp add: r after_step5_def s del: of_nat_add)
qed

text \<open>
  On \<open>null_short_rec\<close>, an IPv4 loopback record that declares 8 captured bytes where the
  headers take 32: Truncated, with 16 + 8 - 48 = -24 in \<^verbatim>\<open>l5_len\<close>. On \<open>null_rec\<close>: Ok
  and 4.
\<close>

theorem negative_length_guard_witness:
  "minimum_size le_host (DLT_NULL le_host) \<le> 48 \<and>
   is_ipv4 le_host (mem_of null_short_rec) (DLT_NULL le_host) \<and>
   header_length le_host (DLT_NULL le_host) < 2 ^ 31 \<and>
   sizeof_pcaprec_hdr le_host + unat (incl_len_of le_host (mem_of null_short_rec))
     < header_length le_host (DLT_NULL le_host) \<and>
   fst (eaud_pcap_dissect le_host (mem_of null_short_rec) 48 (DLT_NULL le_host)) =
     PCP_DSCT_TRNK \<and>
   sint (l5_len (snd (eaud_pcap_dissect le_host (mem_of null_short_rec) 48
     (DLT_NULL le_host)))) = - 24 \<and>
   fst (eaud_pcap_dissect le_host (mem_of null_rec) 52 (DLT_NULL le_host)) \<noteq> PCP_DSCT_TRNK \<and>
   0 \<le> sint (l5_len (snd (eaud_pcap_dissect le_host (mem_of null_rec) 52 (DLT_NULL le_host))))"
proof -
  have m: "minimum_size le_host (DLT_NULL le_host) \<le> 48"
    by (simp add: le_host_sizes)
  have h: "is_ipv4 le_host (mem_of null_short_rec) (DLT_NULL le_host) \<and>
      header_length le_host (DLT_NULL le_host) < 2 ^ 31 \<and>
      sizeof_pcaprec_hdr le_host + unat (incl_len_of le_host (mem_of null_short_rec))
        < header_length le_host (DLT_NULL le_host)"
    by (simp add: null_short_reads le_host_sizes)
  have k: "fst (eaud_pcap_dissect le_host (mem_of null_rec) 52 (DLT_NULL le_host)) \<noteq>
      PCP_DSCT_TRNK"
    by (simp add: dissect_cases Let_def null_rec_reads le_host_sizes step5_len_def)
  note t = negative_length_guard
    [of le_host "mem_of null_short_rec" 48 "DLT_NULL le_host", THEN conjunct2, rule_format, OF h]
  note t1 = t [THEN conjunct1]
  note t2 = t [THEN conjunct2, rule_format, OF m]
  note t3 = negative_length_guard
    [of le_host "mem_of null_rec" 52 "DLT_NULL le_host", THEN conjunct1, rule_format, OF k]
  show ?thesis
    using m h k t1 t2 t3 by (simp add: null_short_reads le_host_sizes)
qed

text \<open>
  The claim as stated fails on a Truncated outcome: on \<open>null_empty_rec\<close>, an IPv4
  loopback record that declares no captured bytes, the dissector returns Truncated and
  the caller's structure holds 16 + 0 - 48 = -32 in \<^verbatim>\<open>l5_len\<close>.
\<close>

theorem negative_length_guard_counterexample:
  "eaud_pcap_dissect le_host (mem_of null_empty_rec) 48 (DLT_NULL le_host) =
     (PCP_DSCT_TRNK, after_step5 le_host (mem_of null_empty_rec) (DLT_NULL le_host)) \<and>
   sint (l5_len (snd (eaud_pcap_dissect le_host (mem_of null_empty_rec) 48
     (DLT_NULL le_host)))) = - 32"
proof -
  have s: "step5_len le_host (mem_of null_empty_rec) (DLT_NULL le_host) = - 32"
    by (simp add: step5_len_def null_empty_reads le_host_sizes)
  have r: "eaud_pcap_dissect le_host (mem_of null_empty_rec) 48 (DLT_NULL le_host) =
     (PCP_DSCT_TRNK, after_step5 le_host (mem_of null_empty_rec) (DLT_NULL le_host))"
    by (simp add: dissect_cases Let_def null_empty_reads le_host_sizes s)
  show ?thesis
    by (simp add: r) (simp add: after_step5_def s)
qed

subsection \<open>The discriminator and byte order\<close>

text \<open>
  C6, as amended. For the Linux cooked framing the protocol field is converted from
  network byte order with \<^verbatim>\<open>ntohs\<close> and compared with 0x0800; for the generic Ethernet
  framing the type field is compared, as the host reads it, with \<^verbatim>\<open>ETHERTYPE_INET\<close>,
  the constant that is ethertype 0x0800 as the host reads its two network-order bytes.
  On both framings, and on every host, a buffer goes past the discriminator check (the
  dissector does not return Unknown) exactly when its discriminator bytes are 08 00,
  IPv4 in network byte order. For the loopback framing the family field is compared
  with \<^verbatim>\<open>AF_INET\<close> in the byte order of the host, with no conversion: a buffer goes past
  the check exactly when the four bytes are \<^verbatim>\<open>AF_INET\<close> as the host stores it, most
  significant byte first on a big-endian host and last on a little-endian one.
\<close>

theorem discriminator_checks:
  assumes "minimum_size L network \<le> blen"
    and "ETHERTYPE_INET L = (if big_endian L then 0x0800 else 0x0008)"
  shows
   "(fst (eaud_pcap_dissect L bp blen network) \<noteq> PCP_DSCT_UNKN) =
    (if network = DLT_NULL L then
       [bp (sizeof_pcaprec_hdr L), bp (sizeof_pcaprec_hdr L + 1),
        bp (sizeof_pcaprec_hdr L + 2), bp (sizeof_pcaprec_hdr L + 3)] =
       (if big_endian L then bytes32 (AF_INET L) else rev (bytes32 (AF_INET L)))
     else if network = DLT_LINUX_SLL L then
       bp (sizeof_pcaprec_hdr L + offsetof_protocol L) = 0x08 \<and>
       bp (sizeof_pcaprec_hdr L + offsetof_protocol L + 1) = 0x00
     else
       bp (sizeof_pcaprec_hdr L + offsetof_type L) = 0x08 \<and>
       bp (sizeof_pcaprec_hdr L + offsetof_type L + 1) = 0x00)"
proof -
  have n: "load32 L bp (sizeof_pcaprec_hdr L) = AF_INET L \<longleftrightarrow>
      [bp (sizeof_pcaprec_hdr L), bp (sizeof_pcaprec_hdr L + 1),
       bp (sizeof_pcaprec_hdr L + 2), bp (sizeof_pcaprec_hdr L + 3)] =
      (if big_endian L then bytes32 (AF_INET L) else rev (bytes32 (AF_INET L)))"
    by (simp only: load32_eq_iff store32_def)
  have e: "load16 L bp (sizeof_pcaprec_hdr L + offsetof_type L) = ETHERTYPE_INET L \<longleftrightarrow>
      bp (sizeof_pcaprec_hdr L + offsetof_type L) = 0x08 \<and>
      bp (sizeof_pcaprec_hdr L + offsetof_type L + 1) = 0x00"
    unfolding assms(2) by (rule load16_ipv4)
  have u: "(fst (eaud_pcap_dissect L bp blen network) \<noteq> PCP_DSCT_UNKN) = is_ipv4 L bp network"
    using assms(1) by (simp add: dissect_cases Let_def)
  show ?thesis
    unfolding u is_ipv4_def ntohs_load16 net16_ipv4 offsetof_null_family_def
      offsetof_en10t_ether_type_def n e
    by (rule refl)
qed

text \<open>
  On the little-endian host, the loopback record \<open>null_rec\<close> with family bytes
  02 00 00 00, the Linux cooked record \<open>sll_rec\<close> with protocol bytes 08 00 and the
  Ethernet record \<open>en10t_rec\<close> with type bytes 08 00 go past the check, and the Ethernet
  record \<open>en10t_other_rec\<close> with type bytes 86 DD does not. On the big-endian host the
  same cooked and Ethernet records go past the check, and so does the loopback record
  \<open>null_net_order_rec\<close> with family bytes 00 00 00 02.
\<close>

theorem discriminator_checks_witness:
  "minimum_size le_host (DLT_NULL le_host) \<le> 52 \<and>
   minimum_size le_host (DLT_LINUX_SLL le_host) \<le> 68 \<and>
   minimum_size le_host 1 \<le> 62 \<and>
   ETHERTYPE_INET le_host = 0x0008 \<and>
   fst (eaud_pcap_dissect le_host (mem_of null_rec) 52 (DLT_NULL le_host)) \<noteq>
     PCP_DSCT_UNKN \<and>
   fst (eaud_pcap_dissect le_host (mem_of sll_rec) 68 (DLT_LINUX_SLL le_host)) \<noteq>
     PCP_DSCT_UNKN \<and>
   fst (eaud_pcap_dissect le_host (mem_of en10t_rec) 62 1) \<noteq> PCP_DSCT_UNKN \<and>
   fst (eaud_pcap_dissect le_host (mem_of en10t_other_rec) 62 1) = PCP_DSCT_UNKN \<and>
   minimum_size be_host (DLT_NULL be_host) \<le> 52 \<and>
   minimum_size be_host (DLT_LINUX_SLL be_host) \<le> 68 \<and>
   minimum_size be_host 1 \<le> 62 \<and>
   ETHERTYPE_INET be_host = 0x0800 \<and>
   fst (eaud_pcap_dissect be_host (mem_of null_net_order_rec) 52 (DLT_NULL be_host)) \<noteq>
     PCP_DSCT_UNKN \<and>
   fst (eaud_pcap_dissect be_host (mem_of sll_rec) 68 (DLT_LINUX_SLL be_host)) \<noteq>
     PCP_DSCT_UNKN \<and>
   fst (eaud_pcap_dissect be_host (mem_of en10t_rec) 62 1) \<noteq> PCP_DSCT_UNKN"
proof -
  have le: "ETHERTYPE_INET le_host = (if big_endian le_host then 0x0800 else 0x0008)"
    and be: "ETHERTYPE_INET be_host = (if big_endian be_host then 0x0800 else 0x0008)"
    by (simp_all add: host_facts)
  have m: "minimum_size le_host (DLT_NULL le_host) \<le> 52"
    "minimum_size le_host (DLT_LINUX_SLL le_host) \<le> 68"
    "minimum_size le_host 1 \<le> 62"
    "minimum_size be_host (DLT_NULL be_host) \<le> 52"
    "minimum_size be_host (DLT_LINUX_SLL be_host) \<le> 68"
    "minimum_size be_host 1 \<le> 62"
    by (simp_all add: le_host_sizes be_host_sizes)
  note a = discriminator_checks [OF m(1) le, of "mem_of null_rec"]
  note b = discriminator_checks [OF m(2) le, of "mem_of sll_rec"]
  note c = discriminator_checks [OF m(3) le, of "mem_of en10t_rec"]
  note d = discriminator_checks [OF m(3) le, of "mem_of en10t_other_rec"]
  note e = discriminator_checks [OF m(4) be, of "mem_of null_net_order_rec"]
  note f = discriminator_checks [OF m(5) be, of "mem_of sll_rec"]
  note g = discriminator_checks [OF m(6) be, of "mem_of en10t_rec"]
  have a': "fst (eaud_pcap_dissect le_host (mem_of null_rec) 52 (DLT_NULL le_host)) \<noteq>
      PCP_DSCT_UNKN"
    unfolding a by (simp add: host_facts discriminator_bytes bytes32_def)
  have b': "fst (eaud_pcap_dissect le_host (mem_of sll_rec) 68 (DLT_LINUX_SLL le_host)) \<noteq>
      PCP_DSCT_UNKN"
    unfolding b by (simp add: host_facts discriminator_bytes)
  have c': "fst (eaud_pcap_dissect le_host (mem_of en10t_rec) 62 1) \<noteq> PCP_DSCT_UNKN"
    unfolding c by (simp add: host_facts discriminator_bytes)
  have d': "fst (eaud_pcap_dissect le_host (mem_of en10t_other_rec) 62 1) = PCP_DSCT_UNKN"
    using d by (simp add: host_facts discriminator_bytes)
  have e': "fst (eaud_pcap_dissect be_host (mem_of null_net_order_rec) 52 (DLT_NULL be_host)) \<noteq>
      PCP_DSCT_UNKN"
    unfolding e by (simp add: host_facts discriminator_bytes bytes32_def)
  have f': "fst (eaud_pcap_dissect be_host (mem_of sll_rec) 68 (DLT_LINUX_SLL be_host)) \<noteq>
      PCP_DSCT_UNKN"
    unfolding f by (simp add: host_facts discriminator_bytes)
  have g': "fst (eaud_pcap_dissect be_host (mem_of en10t_rec) 62 1) \<noteq> PCP_DSCT_UNKN"
    unfolding g by (simp add: host_facts discriminator_bytes)
  show ?thesis
    using m a' b' c' d' e' f' g' by (simp add: host_facts)
qed

text \<open>
  The claim as stated fails for the loopback framing: \<open>null_net_order_rec\<close> has the
  family bytes 00 00 00 02, which are \<^verbatim>\<open>AF_INET\<close> in network byte order, and on the
  little-endian host the dissector reads them as \<open>0x02000000\<close> and returns Unknown.
\<close>

theorem discriminator_checks_counterexample:
  "minimum_size le_host (DLT_NULL le_host) \<le> 52 \<and>
   be32 (mem_of null_net_order_rec 16) (mem_of null_net_order_rec 17)
     (mem_of null_net_order_rec 18) (mem_of null_net_order_rec 19) = AF_INET le_host \<and>
   fst (eaud_pcap_dissect le_host (mem_of null_net_order_rec) 52 (DLT_NULL le_host)) =
     PCP_DSCT_UNKN"
proof -
  have i: "\<not> is_ipv4 le_host (mem_of null_net_order_rec) (DLT_NULL le_host)"
    using null_net_order_reads(2)
    by (simp add: is_ipv4_def offsetof_null_family_def) (simp add: le_host_def)
  show ?thesis
    by (simp add: dissect_cases i null_net_order_reads(1) le_host_sizes)
qed

subsection \<open>Link-type tags without a branch of their own\<close>

text \<open>
  C7. The generic Ethernet path is the last branch of the three-way choice, taken by
  every tag that is neither \<^verbatim>\<open>DLT_NULL\<close> nor \<^verbatim>\<open>DLT_LINUX_SLL\<close>. For every buffer, any
  two such tags, the generic Ethernet tag among them, give the same outcome and the same
  result in every field.
\<close>

theorem default_branch_same:
  "n1 \<noteq> DLT_NULL L \<Longrightarrow> n1 \<noteq> DLT_LINUX_SLL L \<Longrightarrow>
   n2 \<noteq> DLT_NULL L \<Longrightarrow> n2 \<noteq> DLT_LINUX_SLL L \<Longrightarrow>
   eaud_pcap_dissect L bp blen n1 = eaud_pcap_dissect L bp blen n2"
  by (simp add: eaud_pcap_dissect_def dissect_l5_def Let_def)

text \<open>
  Tag 9 (PPP) is dissected as tag 1 (Ethernet) is: on \<open>en10t_rec\<close> both give Ok with
  the payload at byte 58.
\<close>

theorem default_branch_same_witness:
  "(9 :: int) \<noteq> DLT_NULL le_host \<and> 9 \<noteq> DLT_LINUX_SLL le_host \<and>
   1 \<noteq> DLT_NULL le_host \<and> 1 \<noteq> DLT_LINUX_SLL le_host \<and>
   eaud_pcap_dissect le_host (mem_of en10t_rec) 62 9 =
     eaud_pcap_dissect le_host (mem_of en10t_rec) 62 1"
proof -
  have h1: "9 \<noteq> DLT_NULL le_host" and h2: "9 \<noteq> DLT_LINUX_SLL le_host"
    and h3: "1 \<noteq> DLT_NULL le_host" and h4: "1 \<noteq> DLT_LINUX_SLL le_host"
    by (simp_all add: le_host_def)
  show ?thesis
    using default_branch_same [OF h1 h2 h3 h4, of "mem_of en10t_rec" 62] h1 h2 h3 h4
    by simp
qed

subsection \<open>The buffer length\<close>

text \<open>
  C8. The buffer length \<open>blen\<close> bears on the outcome and the result only through the
  minimum-size comparison of the framing: for every link-type tag, two calls on the same
  memory with lengths that both reach the minimum return the same outcome and the same
  result. The checks that follow use the declared \<^verbatim>\<open>incl_len\<close> only, so there are
  buffers on which the dissector returns Ok although the declared extent goes beyond the
  buffer.
\<close>

theorem blen_only_minimum_check:
  "(minimum_size L network \<le> blen1 \<and> minimum_size L network \<le> blen2 \<longrightarrow>
      eaud_pcap_dissect L bp blen1 network = eaud_pcap_dissect L bp blen2 network) \<and>
   (\<exists>L' bp' blen' network'.
      fst (eaud_pcap_dissect L' bp' blen' network') = PCP_DSCT_OK \<and>
      blen' < sizeof_pcaprec_hdr L' + unat (incl_len_of L' bp'))"
proof
  show "minimum_size L network \<le> blen1 \<and> minimum_size L network \<le> blen2 \<longrightarrow>
      eaud_pcap_dissect L bp blen1 network = eaud_pcap_dissect L bp blen2 network"
    by (simp add: dissect_cases)
next
  have "fst (eaud_pcap_dissect le_host (mem_of null_rec) 48 (DLT_NULL le_host)) = PCP_DSCT_OK"
    by (simp add: dissect_cases Let_def null_rec_reads le_host_sizes step5_len_def)
  moreover have "48 < sizeof_pcaprec_hdr le_host + unat (incl_len_of le_host (mem_of null_rec))"
    by (simp add: null_rec_reads le_host_sizes)
  ultimately show "\<exists>L' bp' blen' network'.
      fst (eaud_pcap_dissect L' bp' blen' network') = PCP_DSCT_OK \<and>
      blen' < sizeof_pcaprec_hdr L' + unat (incl_len_of L' bp')"
    by blast
qed

text \<open>
  The first 48 bytes of \<open>null_rec\<close> are dissected as all 52 are, and the record declares
  an extent of 16 + 36 = 52 bytes.
\<close>

theorem blen_only_minimum_check_witness:
  "minimum_size le_host (DLT_NULL le_host) \<le> 48 \<and>
   minimum_size le_host (DLT_NULL le_host) \<le> 52 \<and>
   eaud_pcap_dissect le_host (mem_of null_rec) 48 (DLT_NULL le_host) =
     eaud_pcap_dissect le_host (mem_of null_rec) 52 (DLT_NULL le_host) \<and>
   sizeof_pcaprec_hdr le_host + unat (incl_len_of le_host (mem_of null_rec)) = 52"
proof -
  have h: "minimum_size le_host (DLT_NULL le_host) \<le> 48 \<and>
      minimum_size le_host (DLT_NULL le_host) \<le> 52"
    by (simp add: le_host_sizes)
  note t = blen_only_minimum_check
    [of le_host "DLT_NULL le_host" 48 52 "mem_of null_rec", THEN conjunct1, rule_format, OF h]
  show ?thesis
    using h t by (simp add: null_rec_reads le_host_sizes)
qed

text \<open>
  C9. For the loopback and the generic Ethernet framings, Unknown is returned only when
  the buffer holds the whole fixed aggregate, record header plus link header plus the
  fixed IP header plus the UDP header: a shorter buffer gives Truncated, whatever its
  discriminator, also when it is long enough to hold the discriminator and the
  discriminator is not IPv4.
\<close>

theorem unknown_needs_full_aggregate:
  "(network = DLT_NULL L \<longrightarrow>
      (fst (eaud_pcap_dissect L bp blen network) = PCP_DSCT_UNKN \<longrightarrow>
         sizeof_pcaprec_hdr L + sizeof_family + sizeof_ip + sizeof_udphdr \<le> blen) \<and>
      (blen < sizeof_pcaprec_hdr L + sizeof_family + sizeof_ip + sizeof_udphdr \<longrightarrow>
         eaud_pcap_dissect L bp blen network =
           (PCP_DSCT_TRNK,
            \<lparr>pcaprec_hdr = replicate (sizeof_pcaprec_hdr L) 0, pcap_hdr_len = 0,
             udpip = None, src = None, dst = None, sport = 0, dport = 0,
             l5_len = 0, l5_data = None\<rparr>))) \<and>
   (network \<noteq> DLT_NULL L \<and> network \<noteq> DLT_LINUX_SLL L \<longrightarrow>
      (fst (eaud_pcap_dissect L bp blen network) = PCP_DSCT_UNKN \<longrightarrow>
         sizeof_pcaprec_hdr L + sizeof_layer2_hdr L + sizeof_ip + sizeof_udphdr \<le> blen) \<and>
      (blen < sizeof_pcaprec_hdr L + sizeof_layer2_hdr L + sizeof_ip + sizeof_udphdr \<longrightarrow>
         eaud_pcap_dissect L bp blen network =
           (PCP_DSCT_TRNK,
            \<lparr>pcaprec_hdr = replicate (sizeof_pcaprec_hdr L) 0, pcap_hdr_len = 0,
             udpip = None, src = None, dst = None, sport = 0, dport = 0,
             l5_len = 0, l5_data = None\<rparr>)))"
  by (auto simp add: dissect_cases minimum_size_def sizeof_pkt_hdr_pcap_null_def
      sizeof_pkt_hdr_pcap_en10t_def sizeof_udpip_def zero_dissect_def split: if_splits)

text \<open>
  Thirty bytes of \<open>null_other_rec\<close> hold the record header and the family field, which
  is not IPv4, and fall short of the 48 bytes of the aggregate: Truncated. All 52 bytes
  give Unknown.
\<close>

theorem unknown_needs_full_aggregate_witness:
  "sizeof_pcaprec_hdr le_host + sizeof_family \<le> 30 \<and>
   30 < sizeof_pcaprec_hdr le_host + sizeof_family + sizeof_ip + sizeof_udphdr \<and>
   \<not> is_ipv4 le_host (mem_of null_other_rec) (DLT_NULL le_host) \<and>
   eaud_pcap_dissect le_host (mem_of null_other_rec) 30 (DLT_NULL le_host) =
     (PCP_DSCT_TRNK,
      \<lparr>pcaprec_hdr = [0, 0, 0, 0, 0, 0, 0, 0, 0, 0, 0, 0, 0, 0, 0, 0], pcap_hdr_len = 0,
       udpip = None, src = None, dst = None, sport = 0, dport = 0,
       l5_len = 0, l5_data = None\<rparr>) \<and>
   fst (eaud_pcap_dissect le_host (mem_of null_other_rec) 52 (DLT_NULL le_host)) =
     PCP_DSCT_UNKN \<and>
   sizeof_pcaprec_hdr le_host + sizeof_family + sizeof_ip + sizeof_udphdr \<le> 52"
proof -
  have b: "30 < sizeof_pcaprec_hdr le_host + sizeof_family + sizeof_ip + sizeof_udphdr"
    by (simp add: layout_defs)
  have k: "fst (eaud_pcap_dissect le_host (mem_of null_other_rec) 52 (DLT_NULL le_host)) =
      PCP_DSCT_UNKN"
    by (simp add: dissect_cases null_other_reads le_host_sizes)
  note t = unknown_needs_full_aggregate
    [of "DLT_NULL le_host" le_host "mem_of null_other_rec", THEN conjunct1, rule_format, OF refl]
  note t1 = t [of 30, THEN conjunct2, rule_format, OF b,
    unfolded le_host_sizes sixteen_zeros]
  note t2 = t [of 52, THEN conjunct1, rule_format, OF k]
  show ?thesis
    using t1 t2 k by (simp add: null_other_reads) (simp add: layout_defs)
qed

subsection \<open>What a late Truncated leaves in the result\<close>

text \<open>
  C10, as amended. When the minimum-size check has passed and the dissector returns
  Truncated, which is then from the negative-length check of line 116 or, on the Linux
  cooked path, from the bound of line 128, the result is not the all-zero one: the
  record header has been copied, \<^verbatim>\<open>pcap_hdr_len\<close> is the header length of the framing
  (record header plus link header, plus the fixed network pair for the two
  fixed-aggregate framings), the network-pair reference \<^verbatim>\<open>udpip\<close> is set, and \<^verbatim>\<open>l5_len\<close>
  holds the payload length of step 5, the value that failed the check. The payload
  reference, the addresses and the ports are still zero.
\<close>

theorem truncated_after_step5:
  assumes "minimum_size L network \<le> blen"
    and "fst (eaud_pcap_dissect L bp blen network) = PCP_DSCT_TRNK"
  shows
   "(let dp = snd (eaud_pcap_dissect L bp blen network) in
     dp \<noteq> \<lparr>pcaprec_hdr = replicate (sizeof_pcaprec_hdr L) 0, pcap_hdr_len = 0,
           udpip = None, src = None, dst = None, sport = 0, dport = 0,
           l5_len = 0, l5_data = None\<rparr> \<and>
     pcaprec_hdr dp = map bp [0 ..< sizeof_pcaprec_hdr L] \<and>
     pcap_hdr_len dp = header_length L network \<and>
     udpip dp = Some (network_pair L network) \<and>
     l5_data dp = None \<and> src dp = None \<and> dst dp = None \<and> sport dp = 0 \<and> dport dp = 0 \<and>
     l5_len dp = step5_len L bp network \<and>
     (sint (l5_len dp) < 0 \<or>
      network = DLT_LINUX_SLL L \<and>
      sint (l5_len dp) < int (unat (bp (network_pair L network) AND 0x0F) * 4 + 8)))"
proof -
  have r: "snd (eaud_pcap_dissect L bp blen network) = after_step5 L bp network"
    and c: "sint (step5_len L bp network) < 0 \<or>
      network = DLT_LINUX_SLL L \<and>
      sint (step5_len L bp network) < int (unat (bp (network_pair L network) AND 0x0F) * 4 + 8)"
    using assms
    by (auto simp add: dissect_cases Let_def ip_hl_def sizeof_udphdr_def split: if_splits)
  have z: "after_step5 L bp network \<noteq> zero_dissect L"
  proof
    assume "after_step5 L bp network = zero_dissect L"
    then have "udpip (after_step5 L bp network) = udpip (zero_dissect L)" by simp
    then show False by (simp add: after_step5_def zero_dissect_def)
  qed
  show ?thesis
    unfolding Let_def r using c z
    by (simp add: after_step5_def zero_dissect_def copy_pcaprec_hdr_def)
qed

text \<open>
  On \<open>sll_short_rec\<close>, a Linux cooked record whose 36 declared bytes leave 20 after the
  link header where the 24-byte IP header and the UDP header need 32: Truncated from the
  bound of line 128, with the sixteen bytes of the record header copied, 20 in
  \<^verbatim>\<open>l5_len\<close> and the network pair at byte 32.
\<close>

theorem truncated_after_step5_witness:
  "minimum_size le_host (DLT_LINUX_SLL le_host) \<le> 56 \<and>
   fst (eaud_pcap_dissect le_host (mem_of sll_short_rec) 56 (DLT_LINUX_SLL le_host)) =
     PCP_DSCT_TRNK \<and>
   (let dp = snd (eaud_pcap_dissect le_host (mem_of sll_short_rec) 56 (DLT_LINUX_SLL le_host))
    in dp \<noteq> \<lparr>pcaprec_hdr = [0, 0, 0, 0, 0, 0, 0, 0, 0, 0, 0, 0, 0, 0, 0, 0],
             pcap_hdr_len = 0, udpip = None, src = None, dst = None, sport = 0, dport = 0,
             l5_len = 0, l5_data = None\<rparr> \<and>
       pcaprec_hdr dp = [0, 0, 0, 0, 0, 0, 0, 0, 36, 0, 0, 0, 36, 0, 0, 0] \<and>
       pcap_hdr_len dp = 32 \<and> udpip dp = Some 32 \<and>
       l5_len dp = 20 \<and> l5_data dp = None \<and> src dp = None \<and> dst dp = None \<and>
       sport dp = 0 \<and> dport dp = 0)"
proof -
  have h: "minimum_size le_host (DLT_LINUX_SLL le_host) \<le> 56"
    by (simp add: le_host_sizes)
  have s: "step5_len le_host (mem_of sll_short_rec) (DLT_LINUX_SLL le_host) = 20"
    by (simp add: step5_len_def sll_short_reads le_host_sizes)
  have k: "fst (eaud_pcap_dissect le_host (mem_of sll_short_rec) 56 (DLT_LINUX_SLL le_host)) =
      PCP_DSCT_TRNK"
    by (simp add: dissect_cases Let_def sll_short_reads le_host_sizes s sizeof_udphdr_def)
  note t = truncated_after_step5 [OF h k, unfolded Let_def]
  show ?thesis
    unfolding Let_def using h k t by (simp add: s le_host_sizes sll_short_hdr sixteen_zeros)
qed

text \<open>
  The claim as stated fails on the payload length: on \<open>null_one_short_rec\<close>, an IPv4
  loopback record that declares 31 captured bytes where the headers take 32, the
  dissector returns Truncated from the negative-length check and \<^verbatim>\<open>l5_len\<close> is
  16 + 31 - 48 = -1, not zero.
\<close>

theorem truncated_after_step5_counterexample:
  "minimum_size le_host (DLT_NULL le_host) \<le> 48 \<and>
   is_ipv4 le_host (mem_of null_one_short_rec) (DLT_NULL le_host) \<and>
   fst (eaud_pcap_dissect le_host (mem_of null_one_short_rec) 48 (DLT_NULL le_host)) =
     PCP_DSCT_TRNK \<and>
   sint (l5_len (snd (eaud_pcap_dissect le_host (mem_of null_one_short_rec) 48
     (DLT_NULL le_host)))) = - 1 \<and>
   l5_len (snd (eaud_pcap_dissect le_host (mem_of null_one_short_rec) 48
     (DLT_NULL le_host))) \<noteq> 0"
proof -
  have s: "step5_len le_host (mem_of null_one_short_rec) (DLT_NULL le_host) = - 1"
    by (simp add: step5_len_def null_one_short_reads le_host_sizes)
  have r: "eaud_pcap_dissect le_host (mem_of null_one_short_rec) 48 (DLT_NULL le_host) =
     (PCP_DSCT_TRNK, after_step5 le_host (mem_of null_one_short_rec) (DLT_NULL le_host))"
    by (simp add: dissect_cases Let_def null_one_short_reads le_host_sizes s)
  show ?thesis
    by (simp add: r null_one_short_reads le_host_sizes) (simp add: after_step5_def s)
qed

end
